theory Spec2Isabelle
  imports Main "HOL-Library.Word"
begin

unbundle bit_operations_syntax

section \<open>JavaScript strings\<close>

text \<open>
  A JavaScript string is a sequence of 16-bit code units; \<open>length\<close>, \<open>charCodeAt\<close>,
  \<open>split\<close> and \<open>trim\<close> all count code units. ASCII literals of the source are written
  \<open>jstr ''...''\<close>.
\<close>

type_synonym code_unit = "16 word"
type_synonym jsstring = "code_unit list"
type_synonym byte = "8 word"

definition jstr :: "string \<Rightarrow> jsstring" where
  "jstr s = map of_char s"

section \<open>Constant-time comparison\<close>

text \<open>
  \<^verbatim>\<open>a.charCodeAt(i)\<close> is the code unit at \<open>i\<close>, or NaN (here \<open>None\<close>) when \<open>i\<close> is
  out of range. The operands of \<^verbatim>\<open>^\<close> and \<^verbatim>\<open>|\<close> are converted to 32-bit integers;
  NaN converts to 0.
\<close>

definition charCodeAt :: "jsstring \<Rightarrow> nat \<Rightarrow> code_unit option" where
  "charCodeAt s i = (if i < length s then Some (s ! i) else None)"

definition toInt32 :: "code_unit option \<Rightarrow> 32 word" where
  "toInt32 c = (case c of None \<Rightarrow> 0 | Some u \<Rightarrow> ucast u)"

text \<open>
  The loop \<^verbatim>\<open>for (let i = 0; i < a.length; i++) r |= a.charCodeAt(i) ^ b.charCodeAt(i)\<close>
  with its state \<open>(i, r)\<close>. The last argument is a ghost variable: the list of the
  positions the loop body has read, in order. It does not influence \<open>r\<close>.
\<close>

function ct_loop :: "jsstring \<Rightarrow> jsstring \<Rightarrow> nat \<Rightarrow> 32 word \<Rightarrow> nat list \<Rightarrow> 32 word \<times> nat list" where
  "ct_loop a b i r seen =
     (if i < length a
      then ct_loop a b (i + 1) (r OR (toInt32 (charCodeAt a i) XOR toInt32 (charCodeAt b i))) (seen @ [i])
      else (r, seen))"
  by pat_completeness auto
termination
  by (relation "measure (\<lambda>(a, b, i, r, seen). length a - i)") auto

declare ct_loop.simps [simp del]

text \<open>
  \<open>constantTimeEqual_run\<close> returns the result of \<^verbatim>\<open>constantTimeEqual(a, b)\<close> together with
  the positions read; \<open>constantTimeEqual\<close> is the result alone.
\<close>

definition constantTimeEqual_run :: "jsstring \<Rightarrow> jsstring \<Rightarrow> bool \<times> nat list" where
  "constantTimeEqual_run a b =
     (if length a \<noteq> length b then (False, [])
      else (case ct_loop a b 0 0 [] of (r, seen) \<Rightarrow> (r = 0, seen)))"

definition constantTimeEqual :: "jsstring \<Rightarrow> jsstring \<Rightarrow> bool" where
  "constantTimeEqual a b = fst (constantTimeEqual_run a b)"

section \<open>String operations used by the worker\<close>

text \<open>
  \<^verbatim>\<open>trim\<close> removes the white space and line terminators of ECMAScript from both ends.
\<close>

definition isWhiteSpace :: "code_unit \<Rightarrow> bool" where
  "isWhiteSpace c \<longleftrightarrow>
     c \<in> {0x09, 0x0A, 0x0B, 0x0C, 0x0D, 0x20, 0xA0, 0x1680, 0x2028, 0x2029, 0x202F, 0x205F,
          0x3000, 0xFEFF}
     \<or> (0x2000 \<le> c \<and> c \<le> 0x200A)"

definition trimStart :: "jsstring \<Rightarrow> jsstring" where
  "trimStart s = dropWhile isWhiteSpace s"

definition trim :: "jsstring \<Rightarrow> jsstring" where
  "trim s = rev (dropWhile isWhiteSpace (rev (dropWhile isWhiteSpace s)))"

text \<open>
  \<^verbatim>\<open>s.split(sep)\<close> for a separator of one code unit: the pieces between the separators,
  \<open>[""]\<close> for the empty string.
\<close>

fun split :: "code_unit \<Rightarrow> jsstring \<Rightarrow> jsstring list" where
  "split sep [] = [[]]"
| "split sep (c # cs) =
     (if c = sep then [] # split sep cs
      else (case split sep cs of [] \<Rightarrow> [[c]] | x # xs \<Rightarrow> (c # x) # xs))"

text \<open>
  Numbers. The numbers the worker computes with are timestamps, amounts and counts; they
  are modelled as unbounded integers plus NaN, while the code computes with doubles. The
  two agree on the integers of magnitude at most \<open>2^53\<close>, all of which a double holds;
  beyond that the code rounds, and fractions and infinities are outside the model. Where
  a theorem states the value of a number that the code parses from text, it does so under
  the hypothesis that the number lies in that range (\<open>exactInt\<close> below).
\<close>

datatype jsnum = NaN | Fin int

definition isDigit :: "code_unit \<Rightarrow> bool" where
  "isDigit c \<longleftrightarrow> 0x30 \<le> c \<and> c \<le> 0x39"

definition digitsValue :: "jsstring \<Rightarrow> int" where
  "digitsValue ds = foldl (\<lambda>n c. 10 * n + (uint c - 48)) 0 ds"

text \<open>
  \<^verbatim>\<open>parseInt(s, 10)\<close>: leading white space is skipped, then an optional sign, then the
  longest run of decimal digits; what follows is ignored; no digit gives NaN. The result
  here is the exact integer of the run. The code's result is the nearest double: the
  same number when its magnitude is at most \<open>2^53\<close>, a rounded one above, and Infinity
  for runs of about 309 digits and more.
\<close>

definition parseInt10 :: "jsstring \<Rightarrow> jsnum" where
  "parseInt10 s =
     (let s1 = trimStart s;
          neg = (case s1 of [] \<Rightarrow> False | c # _ \<Rightarrow> c = 0x2D);
          s2 = (case s1 of [] \<Rightarrow> [] | c # r \<Rightarrow> if c = 0x2D \<or> c = 0x2B then r else s1);
          ds = takeWhile isDigit s2
      in if ds = [] then NaN else Fin (if neg then - digitsValue ds else digitsValue ds))"

text \<open>
  Decimal rendering of an integer, as \<^verbatim>\<open>String(n)\<close> and template literals do for the
  integers a double holds exactly below \<open>10^21\<close>; from there on the code prints an
  exponent (\<^verbatim>\<open>1e+21\<close>), which this function does not.
\<close>

function natToDigits :: "nat \<Rightarrow> jsstring" where
  "natToDigits n = (if n < 10 then [of_nat (48 + n)] else natToDigits (n div 10) @ [of_nat (48 + n mod 10)])"
  by pat_completeness auto
termination
  by (relation "measure id") auto

declare natToDigits.simps [simp del]

definition numToString :: "jsnum \<Rightarrow> jsstring" where
  "numToString x =
     (case x of NaN \<Rightarrow> jstr ''NaN''
      | Fin n \<Rightarrow> (if n < 0 then jstr ''-'' @ natToDigits (nat (- n)) else natToDigits (nat n)))"

section \<open>Errors\<close>

text \<open>
  The exceptions of the worker. The four authentication errors are the \<^verbatim>\<open>Error\<close>s thrown
  by \<^verbatim>\<open>verifyStripeSignature\<close>, in the order of its \<^verbatim>\<open>throw\<close> statements: missing
  \<^verbatim>\<open>STRIPE_WEBHOOK_SECRET\<close>, invalid \<^verbatim>\<open>Stripe-Signature\<close> header, timestamp out of tolerance,
  signature mismatch. \<open>TypeError\<close>, \<open>SyntaxError\<close>, \<open>URIError\<close> and
  \<open>InvalidCharacterError\<close> are raised by the language and its library;
  \<open>DeliveryError\<close> is a notifier's rejection.
\<close>

datatype error =
    MissingSecret
  | MalformedHeader
  | StaleOrFutureTimestamp
  | BadSignature
  | TypeError
  | SyntaxError
  | URIError
  | InvalidCharacterError
  | DeliveryError

section \<open>HMAC and hexadecimal encoding\<close>

text \<open>
  \<^verbatim>\<open>new TextEncoder().encode(s)\<close>: the UTF-8 bytes of a string; a surrogate pair is one
  code point, a lone surrogate is replaced by U+FFFD.
\<close>

definition utf8_of_code_point :: "nat \<Rightarrow> byte list" where
  "utf8_of_code_point cp =
     (if cp < 0x80 then [of_nat cp]
      else if cp < 0x800 then [of_nat (0xC0 + cp div 0x40), of_nat (0x80 + cp mod 0x40)]
      else if cp < 0x10000 then
        [of_nat (0xE0 + cp div 0x1000), of_nat (0x80 + cp div 0x40 mod 0x40), of_nat (0x80 + cp mod 0x40)]
      else
        [of_nat (0xF0 + cp div 0x40000), of_nat (0x80 + cp div 0x1000 mod 0x40),
         of_nat (0x80 + cp div 0x40 mod 0x40), of_nat (0x80 + cp mod 0x40)])"

definition isHighSurrogate :: "code_unit \<Rightarrow> bool" where
  "isHighSurrogate c \<longleftrightarrow> 0xD800 \<le> c \<and> c \<le> 0xDBFF"

definition isLowSurrogate :: "code_unit \<Rightarrow> bool" where
  "isLowSurrogate c \<longleftrightarrow> 0xDC00 \<le> c \<and> c \<le> 0xDFFF"

definition pairCodePoint :: "code_unit \<Rightarrow> code_unit \<Rightarrow> nat" where
  "pairCodePoint hi lo = 0x10000 + (unat hi - 0xD800) * 0x400 + (unat lo - 0xDC00)"

fun TextEncoder_encode :: "jsstring \<Rightarrow> byte list" where
  "TextEncoder_encode [] = []"
| "TextEncoder_encode [c] =
     utf8_of_code_point (if isHighSurrogate c \<or> isLowSurrogate c then 0xFFFD else unat c)"
| "TextEncoder_encode (c # d # r) =
     (if isHighSurrogate c \<and> isLowSurrogate d
      then utf8_of_code_point (pairCodePoint c d) @ TextEncoder_encode r
      else utf8_of_code_point (if isHighSurrogate c \<or> isLowSurrogate c then 0xFFFD else unat c)
           @ TextEncoder_encode (d # r))"

text \<open>
  \<^verbatim>\<open>b.toString(16).padStart(2, "0")\<close> for a byte \<open>b\<close>, and \<^verbatim>\<open>bufferToHex\<close>, which joins
  these.
\<close>

definition hexDigit :: "nat \<Rightarrow> code_unit" where
  "hexDigit d = (if d < 10 then of_nat (48 + d) else of_nat (97 + (d - 10)))"

definition byteToString16 :: "byte \<Rightarrow> jsstring" where
  "byteToString16 b = (if unat b < 16 then [hexDigit (unat b)] else [hexDigit (unat b div 16), hexDigit (unat b mod 16)])"

definition padStart :: "nat \<Rightarrow> code_unit \<Rightarrow> jsstring \<Rightarrow> jsstring" where
  "padStart n c s = replicate (n - length s) c @ s"

definition bufferToHex :: "byte list \<Rightarrow> jsstring" where
  "bufferToHex buf = concat (map (\<lambda>b. padStart 2 0x30 (byteToString16 b)) buf)"

text \<open>
  \<^verbatim>\<open>crypto.subtle\<close> belongs to the runtime, not to the worker: the HMAC-SHA256 of a
  message under a key, both byte strings, is a parameter \<open>hmac\<close> of every function that
  signs. \<^verbatim>\<open>hmacSHA256Hex(secret, message)\<close> encodes both strings and renders the MAC in
  hexadecimal.
\<close>

type_synonym hmac_sha256 = "byte list \<Rightarrow> byte list \<Rightarrow> byte list"

definition hmacSHA256Hex :: "hmac_sha256 \<Rightarrow> jsstring \<Rightarrow> jsstring \<Rightarrow> jsstring" where
  "hmacSHA256Hex hmac secret message =
     bufferToHex (hmac (TextEncoder_encode secret) (TextEncoder_encode message))"

section \<open>Verification of the Stripe signature\<close>

text \<open>
  The loop over \<^verbatim>\<open>signatureHeader.split(",")\<close>: each piece is trimmed and split at
  \<^verbatim>\<open>=\<close>; the destructuring \<^verbatim>\<open>[k, v]\<close> takes the first two pieces; the pair is stored
  when both are non-empty, a later pair replacing an earlier one with the same key.
  \<open>parts\<close> starts empty (\<^verbatim>\<open>Object.create(null)\<close>).
\<close>

fun header_loop :: "jsstring list \<Rightarrow> (jsstring \<rightharpoonup> jsstring) \<Rightarrow> (jsstring \<rightharpoonup> jsstring)" where
  "header_loop [] parts = parts"
| "header_loop (kv # kvs) parts =
     (case split 0x3D (trim kv) of
        k # v # _ \<Rightarrow> header_loop kvs (if k \<noteq> [] \<and> v \<noteq> [] then parts(k \<mapsto> v) else parts)
      | _ \<Rightarrow> header_loop kvs parts)"

definition parseSignatureHeader :: "jsstring \<Rightarrow> (jsstring \<rightharpoonup> jsstring)" where
  "parseSignatureHeader signatureHeader = header_loop (split 0x2C signatureHeader) Map.empty"

text \<open>
  A value that is a string or undefined is truthy when it is a non-empty string:
  \<open>truthyStr\<close> gives that string, and \<open>falsyStr s\<close> is \<^verbatim>\<open>!s\<close>.
\<close>

definition truthyStr :: "jsstring option \<Rightarrow> jsstring option" where
  "truthyStr s = (case s of None \<Rightarrow> None | Some x \<Rightarrow> if x = [] then None else Some x)"

definition falsyStr :: "jsstring option \<Rightarrow> bool" where
  "falsyStr s \<longleftrightarrow> truthyStr s = None"

text \<open>\<^verbatim>\<open>x > y\<close> for an integer \<open>x\<close>: false when \<open>y\<close> is NaN.\<close>

definition greaterThan :: "int \<Rightarrow> jsnum \<Rightarrow> bool" where
  "greaterThan x y = (case y of NaN \<Rightarrow> False | Fin n \<Rightarrow> x > n)"

text \<open>
  \<^verbatim>\<open>verifyStripeSignature\<close>. \<open>now_ms\<close> is the value of \<^verbatim>\<open>Date.now()\<close>; the secret is
  \<open>None\<close> when the variable is undefined; the tolerance is \<open>None\<close> when the caller
  passes none, and the default 300 applies. It returns normally (\<open>Inr ()\<close>) or throws.
\<close>

definition verifyStripeSignature ::
  "hmac_sha256 \<Rightarrow> int \<Rightarrow> jsstring \<Rightarrow> jsstring \<Rightarrow> jsstring option \<Rightarrow> jsnum option \<Rightarrow> error + unit" where
  "verifyStripeSignature hmac now_ms signatureHeader payload signingSecret timestampToleranceSec =
     (let tolerance = (case timestampToleranceSec of None \<Rightarrow> Fin 300 | Some x \<Rightarrow> x) in
      case truthyStr signingSecret of
        None \<Rightarrow> Inl MissingSecret
      | Some secret \<Rightarrow>
          let parts = parseSignatureHeader signatureHeader in
          (case (truthyStr (parts (jstr ''t'')), truthyStr (parts (jstr ''v1''))) of
             (Some t, Some v1) \<Rightarrow>
               let nowSec = now_ms div 1000;
                   ts = parseInt10 t
               in (case ts of
                     NaN \<Rightarrow> Inl StaleOrFutureTimestamp
                   | Fin n \<Rightarrow>
                       if greaterThan \<bar>nowSec - n\<bar> tolerance then Inl StaleOrFutureTimestamp
                       else
                         let signedPayload = t @ jstr ''.'' @ payload;
                             macHex = hmacSHA256Hex hmac secret signedPayload
                         in if \<not> constantTimeEqual macHex v1 then Inl BadSignature
                            else Inr ())
           | _ \<Rightarrow> Inl MalformedHeader))"

section \<open>JavaScript values\<close>

text \<open>
  The event is the result of \<^verbatim>\<open>JSON.parse\<close>: a JSON value, with the own properties of an
  object as an association list (the first binding of a key counts; a parsed object has
  each key once). \<open>JUndefined\<close> is what reading a missing property gives.
\<close>

datatype jsval =
    JUndefined
  | JNull
  | JBool bool
  | JNum jsnum
  | JStr jsstring
  | JArr "jsval list"
  | JObj "(jsstring \<times> jsval) list"

fun truthy :: "jsval \<Rightarrow> bool" where
  "truthy JUndefined = False"
| "truthy JNull = False"
| "truthy (JBool b) = b"
| "truthy (JNum NaN) = False"
| "truthy (JNum (Fin n)) = (n \<noteq> 0)"
| "truthy (JStr s) = (s \<noteq> [])"
| "truthy (JArr xs) = True"
| "truthy (JObj kvs) = True"

definition nullish :: "jsval \<Rightarrow> bool" where
  "nullish v \<longleftrightarrow> v = JUndefined \<or> v = JNull"

text \<open>\<^verbatim>\<open>a || b\<close> and \<^verbatim>\<open>a ?? b\<close>, for operands whose evaluation has no effect.\<close>

definition por :: "jsval \<Rightarrow> jsval \<Rightarrow> jsval" where
  "por a b = (if truthy a then a else b)"

definition qq :: "jsval \<Rightarrow> jsval \<Rightarrow> jsval" where
  "qq a b = (if nullish a then b else a)"

text \<open>
  Property access. \<open>getProp v k\<close> is \<^verbatim>\<open>v.k\<close> for a value \<open>v\<close> that is neither null nor
  undefined and a name \<open>k\<close> that no prototype defines (none of the names the worker reads
  is a property of \<^verbatim>\<open>Object.prototype\<close>, \<^verbatim>\<open>Array.prototype\<close> or of a primitive's
  wrapper). \<open>dot\<close> is \<^verbatim>\<open>v.k\<close> in general, which throws on null and undefined;
  \<open>optdot\<close> is \<^verbatim>\<open>v?.k\<close>; \<open>optindex0\<close> is \<^verbatim>\<open>v?.[0]\<close>.
\<close>

fun getProp :: "jsval \<Rightarrow> jsstring \<Rightarrow> jsval" where
  "getProp (JObj kvs) k = (case map_of kvs k of None \<Rightarrow> JUndefined | Some v \<Rightarrow> v)"
| "getProp v k = JUndefined"

definition dot :: "jsval \<Rightarrow> jsstring \<Rightarrow> error + jsval" where
  "dot v k = (if nullish v then Inl TypeError else Inr (getProp v k))"

definition optdot :: "jsval \<Rightarrow> jsstring \<Rightarrow> jsval" where
  "optdot v k = (if nullish v then JUndefined else getProp v k)"

fun optindex0 :: "jsval \<Rightarrow> jsval" where
  "optindex0 (JArr xs) = (case xs of [] \<Rightarrow> JUndefined | x # _ \<Rightarrow> x)"
| "optindex0 (JStr s) = (case s of [] \<Rightarrow> JUndefined | c # _ \<Rightarrow> JStr [c])"
| "optindex0 (JObj kvs) = getProp (JObj kvs) (jstr ''0'')"
| "optindex0 v = JUndefined"

text \<open>
  Conversion to a string, as \<^verbatim>\<open>x.toString()\<close> and the argument conversion of
  \<^verbatim>\<open>parseInt\<close> perform it. An array joins its elements with commas, null and undefined
  elements giving the empty string. A parsed object has no function among its
  properties: with an own property \<^verbatim>\<open>toString\<close> the conversion throws a TypeError,
  without it \<^verbatim>\<open>Object.prototype.toString\<close> answers.
\<close>

fun toString_js :: "jsval \<Rightarrow> error + jsstring"
  and join_js :: "jsval list \<Rightarrow> error + jsstring" where
  "toString_js JUndefined = Inr (jstr ''undefined'')"
| "toString_js JNull = Inr (jstr ''null'')"
| "toString_js (JBool b) = Inr (if b then jstr ''true'' else jstr ''false'')"
| "toString_js (JNum x) = Inr (numToString x)"
| "toString_js (JStr s) = Inr s"
| "toString_js (JArr xs) = join_js xs"
| "toString_js (JObj kvs) =
     (if map_of kvs (jstr ''toString'') \<noteq> None then Inl TypeError
      else Inr (jstr ''[object Object]''))"
| "join_js [] = Inr []"
| "join_js (x # xs) =
     (case (if x = JUndefined \<or> x = JNull then Inr [] else toString_js x) of
        Inl e \<Rightarrow> Inl e
      | Inr s \<Rightarrow>
          (if xs = [] then Inr s
           else (case join_js xs of Inl e \<Rightarrow> Inl e | Inr r \<Rightarrow> Inr (s @ jstr '','' @ r))))"

text \<open>
  Conversion of a string to a number: white space is trimmed; the empty string is 0; an
  optionally signed run of decimal digits is that integer. Every other string is NaN
  here. This is the code's conversion on the strings that are empty, plain decimal
  integers of magnitude at most \<open>2^53\<close>, or no numeral at all; the code also reads
  numerals with a fraction, an exponent or a radix prefix and \<^verbatim>\<open>Infinity\<close> (\<^verbatim>\<open>1e3\<close>
  is 1000), which this function does not.
\<close>

definition stringToNumber :: "jsstring \<Rightarrow> jsnum" where
  "stringToNumber s =
     (let s1 = trim s;
          neg = (case s1 of [] \<Rightarrow> False | c # _ \<Rightarrow> c = 0x2D);
          s2 = (case s1 of [] \<Rightarrow> [] | c # r \<Rightarrow> if c = 0x2D \<or> c = 0x2B then r else s1)
      in if s1 = [] then Fin 0
         else if s2 \<noteq> [] \<and> list_all isDigit s2
         then Fin (if neg then - digitsValue s2 else digitsValue s2)
         else NaN)"

text \<open>Conversion to a number, as the operands of \<^verbatim>\<open>*\<close> and \<^verbatim>\<open>/\<close> undergo it.\<close>

fun toNumber_js :: "jsval \<Rightarrow> error + jsnum" where
  "toNumber_js JUndefined = Inr NaN"
| "toNumber_js JNull = Inr (Fin 0)"
| "toNumber_js (JBool b) = Inr (Fin (if b then 1 else 0))"
| "toNumber_js (JNum x) = Inr x"
| "toNumber_js (JStr s) = Inr (stringToNumber s)"
| "toNumber_js (JArr xs) =
     (case join_js xs of Inl e \<Rightarrow> Inl e | Inr s \<Rightarrow> Inr (stringToNumber s))"
| "toNumber_js (JObj kvs) =
     (if map_of kvs (jstr ''toString'') \<noteq> None then Inl TypeError else Inr NaN)"

text \<open>
  \<^verbatim>\<open>s.toUpperCase()\<close> on strings of ASCII: the letters a to z are mapped, every other
  code unit is left as it is. The code also maps the cased letters beyond ASCII, which
  this function does not; currency codes are ASCII.
\<close>

definition toUpperCase :: "jsstring \<Rightarrow> jsstring" where
  "toUpperCase s = map (\<lambda>c. if 0x61 \<le> c \<and> c \<le> 0x7A then c - 0x20 else c) s"

section \<open>Normalisation of the event\<close>

text \<open>
  \<^verbatim>\<open>(n / 100).toFixed(2)\<close> for an integer \<open>n\<close> of minor units: the sign, the hundreds,
  a point and two digits. The code divides as a double and prints the digits of the
  quotient it holds; these are the digits given here for the amounts payments have, and
  differ for amounts from about \<open>2^52\<close> minor units on. \<^verbatim>\<open>formatAmount\<close> converts
  the amount to a number first.
\<close>

definition twoDigits :: "nat \<Rightarrow> jsstring" where
  "twoDigits n = [of_nat (48 + n div 10 mod 10), of_nat (48 + n mod 10)]"

definition centsToFixed2 :: "jsnum \<Rightarrow> jsstring" where
  "centsToFixed2 x =
     (case x of NaN \<Rightarrow> jstr ''NaN''
      | Fin n \<Rightarrow>
          (if n < 0 then jstr ''-'' else []) @ natToDigits (nat \<bar>n\<bar> div 100) @ jstr ''.''
          @ twoDigits (nat \<bar>n\<bar> mod 100))"

definition formatAmount :: "jsval \<Rightarrow> jsstring \<Rightarrow> error + jsstring" where
  "formatAmount amountMinor currency =
     (case toNumber_js amountMinor of
        Inl e \<Rightarrow> Inl e
      | Inr minor \<Rightarrow> Inr (currency @ jstr '' '' @ centsToFixed2 minor))"

text \<open>
  The object \<^verbatim>\<open>info\<close> that normalisation builds. Its field \<^verbatim>\<open>id\<close> is \<open>id_field\<close>
  here.
\<close>

record PaymentRecord =
  event_type :: jsval
  id_field :: jsval
  created_ms :: jsnum
  currency :: jsstring
  amount_minor :: jsval
  amount_readable :: jsstring
  email :: jsval
  order_no :: jsval
  product_name :: jsval
  quantity :: jsnum
  payment_method :: jsval
  customer_id :: jsval

text \<open>\<^verbatim>\<open>evt.data?.object || {}\<close>, given the value of \<^verbatim>\<open>evt.data\<close>.\<close>

definition dataObject :: "jsval \<Rightarrow> jsval" where
  "dataObject evt_data = por (optdot evt_data (jstr ''object'')) (JObj [])"

text \<open>The \<^verbatim>\<open>??\<close> chain of lines 161 to 167, on the object \<open>obj\<close>.\<close>

definition amountMinorOf :: "jsval \<Rightarrow> jsval" where
  "amountMinorOf obj =
     qq (qq (qq (qq (qq (getProp obj (jstr ''amount_total''))
                        (getProp obj (jstr ''amount_paid'')))
                    (getProp obj (jstr ''amount_due'')))
                (getProp obj (jstr ''amount'')))
            (getProp obj (jstr ''amount_captured'')))
        (JNum (Fin 0))"

text \<open>\<^verbatim>\<open>parseInt(obj.metadata?.quantity || "1", 10) || 1\<close>.\<close>

definition quantityOf :: "jsval \<Rightarrow> error + jsnum" where
  "quantityOf obj =
     (case toString_js (por (optdot (getProp obj (jstr ''metadata'')) (jstr ''quantity'')) (JStr (jstr ''1''))) of
        Inl e \<Rightarrow> Inl e
      | Inr s \<Rightarrow> Inr (let q = parseInt10 s in if truthy (JNum q) then q else Fin 1))"

text \<open>\<^verbatim>\<open>obj.created ? obj.created * 1000 : Date.now()\<close>.\<close>

definition createdMsOf :: "int \<Rightarrow> jsval \<Rightarrow> error + jsnum" where
  "createdMsOf now_ms obj =
     (if truthy (getProp obj (jstr ''created''))
      then (case toNumber_js (getProp obj (jstr ''created'')) of
              Inl e \<Rightarrow> Inl e
            | Inr x \<Rightarrow> Inr (case x of NaN \<Rightarrow> NaN | Fin n \<Rightarrow> Fin (n * 1000)))
      else Inr (Fin now_ms))"

text \<open>
  \<^verbatim>\<open>normalizeStripeEvent(evt)\<close>. \<open>now_ms\<close> is what \<^verbatim>\<open>Date.now()\<close> returns during the
  call. \<open>obj\<close> is truthy, so reading its properties cannot throw; the conversions can.
  The default product name is the two code units of the source's literal.
\<close>

definition normalizeStripeEvent :: "int \<Rightarrow> jsval \<Rightarrow> error + PaymentRecord" where
  "normalizeStripeEvent now_ms evt =
     (case dot evt (jstr ''data'') of
        Inl e \<Rightarrow> Inl e
      | Inr evt_data \<Rightarrow>
     let obj = dataObject evt_data in
     (case toString_js (por (por (getProp obj (jstr ''currency'')) (getProp obj (jstr ''currency_code'')))
                            (JStr (jstr ''usd''))) of
        Inl e \<Rightarrow> Inl e
      | Inr currency_str \<Rightarrow>
     let currency = toUpperCase currency_str;
         amountMinor = amountMinorOf obj
     in
     (case createdMsOf now_ms obj of
        Inl e \<Rightarrow> Inl e
      | Inr created \<Rightarrow>
     (case formatAmount amountMinor currency of
        Inl e \<Rightarrow> Inl e
      | Inr readable \<Rightarrow>
     (case quantityOf obj of
        Inl e \<Rightarrow> Inl e
      | Inr qty \<Rightarrow>
     Inr \<lparr> event_type = getProp evt (jstr ''type''),
           id_field = por (getProp obj (jstr ''id'')) (getProp evt (jstr ''id'')),
           created_ms = created,
           currency = currency,
           amount_minor = amountMinor,
           amount_readable = readable,
           email =
             por (por (por (por (optdot (getProp obj (jstr ''customer_details'')) (jstr ''email''))
                                (getProp obj (jstr ''customer_email'')))
                           (getProp obj (jstr ''receipt_email'')))
                      (optdot (getProp obj (jstr ''billing_details'')) (jstr ''email'')))
                 JNull,
           order_no =
             por (por (por (por (por (getProp obj (jstr ''id''))
                                     (getProp obj (jstr ''payment_intent'')))
                                (getProp obj (jstr ''charge'')))
                           (getProp obj (jstr ''subscription'')))
                      (getProp obj (jstr ''invoice'')))
                 (getProp evt (jstr ''id'')),
           product_name =
             por (por (por (optdot (getProp obj (jstr ''metadata'')) (jstr ''product_name''))
                           (optdot (optdot (optindex0 (getProp obj (jstr ''display_items'')))
                                           (jstr ''custom'')) (jstr ''name'')))
                      (optdot (getProp obj (jstr ''metadata'')) (jstr ''name'')))
                 (JStr [0x652F, 0x4ED8]),
           quantity = qty,
           payment_method =
             por (por (por (optindex0 (getProp obj (jstr ''payment_method_types'')))
                           (optdot (getProp obj (jstr ''payment_method_details'')) (jstr ''type'')))
                      (getProp obj (jstr ''payment_method'')))
                 (JStr (jstr ''stripe'')),
           customer_id = por (getProp obj (jstr ''customer'')) JNull \<rparr>)))))"

section \<open>Configuration\<close>

text \<open>
  The environment variables the coordinator and the DingTalk notifier read. A variable
  is a string, or undefined (\<open>None\<close>).
\<close>

record env =
  STRIPE_WEBHOOK_SECRET :: "jsstring option"
  SIG_TOLERANCE_SEC :: "jsstring option"
  MAIL_TO :: "jsstring option"
  MAIL_FROM :: "jsstring option"
  SC_KEY :: "jsstring option"
  DINGTALK_WEBHOOK :: "jsstring option"
  DINGTALK_SECRET :: "jsstring option"
  TELEGRAM_BOT_TOKEN :: "jsstring option"
  TELEGRAM_CHAT_ID :: "jsstring option"

text \<open>A string or undefined inside a template literal.\<close>

definition template :: "jsstring option \<Rightarrow> jsstring" where
  "template s = (case s of None \<Rightarrow> jstr ''undefined'' | Some x \<Rightarrow> x)"

section \<open>The DingTalk signature\<close>

text \<open>
  The loop of \<^verbatim>\<open>signDingtalk\<close> that turns the MAC into a binary string, 0x8000 bytes at a
  time: \<^verbatim>\<open>b64 += String.fromCharCode.apply(null, bytes.subarray(i, i + 0x8000))\<close>.
\<close>

function fromCharCode_loop :: "byte list \<Rightarrow> nat \<Rightarrow> jsstring \<Rightarrow> jsstring" where
  "fromCharCode_loop bytes i b64 =
     (if i < length bytes
      then fromCharCode_loop bytes (i + 0x8000) (b64 @ map ucast (take 0x8000 (drop i bytes)))
      else b64)"
  by pat_completeness auto
termination
  by (relation "measure (\<lambda>(bytes, i, b64). length bytes - i)") auto

declare fromCharCode_loop.simps [simp del]

text \<open>
  \<^verbatim>\<open>btoa\<close>: standard Base64 with padding of a binary string; a code unit above 0xFF
  throws.
\<close>

definition b64char :: "nat \<Rightarrow> code_unit" where
  "b64char n =
     (if n < 26 then of_nat (65 + n)
      else if n < 52 then of_nat (97 + (n - 26))
      else if n < 62 then of_nat (48 + (n - 52))
      else if n = 62 then 0x2B
      else 0x2F)"

fun b64_groups :: "nat list \<Rightarrow> jsstring" where
  "b64_groups [] = []"
| "b64_groups [a] = [b64char (a div 4), b64char (a mod 4 * 16), 0x3D, 0x3D]"
| "b64_groups [a, b] =
     [b64char (a div 4), b64char (a mod 4 * 16 + b div 16), b64char (b mod 16 * 4), 0x3D]"
| "b64_groups (a # b # c # r) =
     [b64char (a div 4), b64char (a mod 4 * 16 + b div 16), b64char (b mod 16 * 4 + c div 64),
      b64char (c mod 64)] @ b64_groups r"

definition btoa :: "jsstring \<Rightarrow> error + jsstring" where
  "btoa s = (if list_ex (\<lambda>c. 0xFF < c) s then Inl InvalidCharacterError
             else Inr (b64_groups (map unat s)))"

text \<open>
  \<^verbatim>\<open>encodeURIComponent\<close>: letters, digits and \<^verbatim>\<open>- _ . ! ~ * ' ( )\<close> stay; every other
  code point becomes the escaped bytes of its UTF-8 form; a lone surrogate throws.
\<close>

definition uriUnreserved :: "code_unit \<Rightarrow> bool" where
  "uriUnreserved c \<longleftrightarrow>
     (0x41 \<le> c \<and> c \<le> 0x5A) \<or> (0x61 \<le> c \<and> c \<le> 0x7A) \<or> (0x30 \<le> c \<and> c \<le> 0x39)
     \<or> c \<in> {0x2D, 0x5F, 0x2E, 0x21, 0x7E, 0x2A, 0x27, 0x28, 0x29}"

definition hexDigitUpper :: "nat \<Rightarrow> code_unit" where
  "hexDigitUpper d = (if d < 10 then of_nat (48 + d) else of_nat (65 + (d - 10)))"

definition pctEncode :: "byte list \<Rightarrow> jsstring" where
  "pctEncode bs = concat (map (\<lambda>b. [0x25, hexDigitUpper (unat b div 16), hexDigitUpper (unat b mod 16)]) bs)"

fun encodeURIComponent :: "jsstring \<Rightarrow> error + jsstring" where
  "encodeURIComponent [] = Inr []"
| "encodeURIComponent [c] =
     (if uriUnreserved c then Inr [c]
      else if isHighSurrogate c \<or> isLowSurrogate c then Inl URIError
      else Inr (pctEncode (utf8_of_code_point (unat c))))"
| "encodeURIComponent (c # d # r) =
     (if uriUnreserved c then
        (case encodeURIComponent (d # r) of Inl e \<Rightarrow> Inl e | Inr s \<Rightarrow> Inr (c # s))
      else if isLowSurrogate c then Inl URIError
      else if isHighSurrogate c then
        (if isLowSurrogate d then
           (case encodeURIComponent r of
              Inl e \<Rightarrow> Inl e
            | Inr s \<Rightarrow> Inr (pctEncode (utf8_of_code_point (pairCodePoint c d)) @ s))
         else Inl URIError)
      else
        (case encodeURIComponent (d # r) of
           Inl e \<Rightarrow> Inl e
         | Inr s \<Rightarrow> Inr (pctEncode (utf8_of_code_point (unat c)) @ s)))"

text \<open>
  \<^verbatim>\<open>signDingtalk(timestamp, secret)\<close>: the MAC, keyed by the secret, of the timestamp, a
  line feed and the secret, in Base64.
\<close>

definition signDingtalk :: "hmac_sha256 \<Rightarrow> int \<Rightarrow> jsstring \<Rightarrow> error + jsstring" where
  "signDingtalk hmac timestamp secret =
     (let data = numToString (Fin timestamp) @ [0x0A] @ secret;
          sig = hmac (TextEncoder_encode secret) (TextEncoder_encode data)
      in btoa (fromCharCode_loop sig 0 []))"

text \<open>
  The first lines of \<^verbatim>\<open>sendDingtalk(env, info)\<close>: the address the message is posted to.
  \<open>now_ms\<close> is what \<^verbatim>\<open>Date.now()\<close> returns inside this call. The record \<open>info\<close> is an
  argument of the source function and is not read here.
\<close>

definition sendDingtalk_webhook :: "hmac_sha256 \<Rightarrow> int \<Rightarrow> env \<Rightarrow> PaymentRecord \<Rightarrow> error + jsstring option" where
  "sendDingtalk_webhook hmac now_ms e info =
     (let webhook = DINGTALK_WEBHOOK e in
      case truthyStr (DINGTALK_SECRET e) of
        Some secret \<Rightarrow>
          (let ts = now_ms in
           case signDingtalk hmac ts secret of
             Inl err \<Rightarrow> Inl err
           | Inr sign \<Rightarrow>
               (case encodeURIComponent sign of
                  Inl err \<Rightarrow> Inl err
                | Inr encoded \<Rightarrow>
                    Inr (Some (template webhook @ jstr ''&timestamp='' @ numToString (Fin ts)
                               @ jstr ''&sign='' @ encoded))))
      | None \<Rightarrow> Inr webhook)"

section \<open>Notifiers\<close>

text \<open>
  The four notifiers, in the order in which the coordinator tests and starts them. A
  notifier is enabled when its variables are non-empty strings.
\<close>

datatype channel = MailChannels | ServerChan | Dingtalk | Telegram

definition enabled_channels :: "env \<Rightarrow> channel list" where
  "enabled_channels e =
     (if \<not> falsyStr (MAIL_TO e) \<and> \<not> falsyStr (MAIL_FROM e) then [MailChannels] else [])
     @ (if \<not> falsyStr (SC_KEY e) then [ServerChan] else [])
     @ (if \<not> falsyStr (DINGTALK_WEBHOOK e) then [Dingtalk] else [])
     @ (if \<not> falsyStr (TELEGRAM_BOT_TOKEN e) \<and> \<not> falsyStr (TELEGRAM_CHAT_ID e) then [Telegram] else [])"

text \<open>
  What lies outside the worker: the HMAC of the runtime, \<^verbatim>\<open>JSON.parse\<close> (\<open>None\<close> when
  it throws a SyntaxError), the readings of \<^verbatim>\<open>Date.now()\<close> at its three call sites, and
  the fate of each notifier's outbound call. \<open>deliver c target info\<close> is \<open>None\<close> when
  the promise of notifier \<open>c\<close> is fulfilled and \<open>Some err\<close> when it is rejected (a
  response that is not 2xx, a network error, an exception while the message is built);
  \<open>target\<close> is the address computed above for DingTalk and \<open>None\<close> for the other
  notifiers, whose messages are not modelled. Every promise is taken to settle.
\<close>

record platform =
  crypto_hmac :: hmac_sha256
  JSON_parse :: "jsstring \<Rightarrow> jsval option"
  now_verify :: int
  now_normalize :: int
  now_dingtalk :: int
  deliver :: "channel \<Rightarrow> jsstring option \<Rightarrow> PaymentRecord \<Rightarrow> error option"

text \<open>
  One task of the fan-out: the promise \<^verbatim>\<open>sendX(env, info).catch(console.warn)\<close>. Its result
  is what \<^verbatim>\<open>console.warn\<close> receives, if anything; the promise itself is always fulfilled.
\<close>

definition run_task :: "platform \<Rightarrow> env \<Rightarrow> PaymentRecord \<Rightarrow> channel \<Rightarrow> error option" where
  "run_task P e info c =
     (case c of
        Dingtalk \<Rightarrow>
          (case sendDingtalk_webhook (crypto_hmac P) (now_dingtalk P) e info of
             Inl err \<Rightarrow> Some err
           | Inr target \<Rightarrow> deliver P Dingtalk target info)
      | _ \<Rightarrow> deliver P c None info)"

section \<open>The request handler\<close>

record request =
  method_name :: jsstring
  pathname :: jsstring
  stripe_signature :: "jsstring option"
  rawBody :: jsstring

record response =
  status :: nat
  text_body :: jsstring

text \<open>
  What one call of \<^verbatim>\<open>fetch\<close> does: the response, and as ghost fields whether
  \<^verbatim>\<open>normalizeStripeEvent\<close> was called, the notifiers started in order, each with what
  reached \<^verbatim>\<open>console.warn\<close>, and the error given to \<^verbatim>\<open>console.log\<close> by the handler.
\<close>

record outcome =
  reply :: response
  normalize_called :: bool
  tasks :: "(channel \<times> error option) list"
  logged :: "error option"

definition okTypes :: "jsval list" where
  "okTypes =
     [JStr (jstr ''payment_intent.succeeded''),
      JStr (jstr ''checkout.session.completed''),
      JStr (jstr ''invoice.payment_succeeded'')]"

text \<open>
  \<^verbatim>\<open>env.SIG_TOLERANCE_SEC ? parseInt(env.SIG_TOLERANCE_SEC, 10) : 300\<close>.
\<close>

definition tolerance_of_env :: "env \<Rightarrow> jsnum" where
  "tolerance_of_env e =
     (case truthyStr (SIG_TOLERANCE_SEC e) of Some s \<Rightarrow> parseInt10 s | None \<Rightarrow> Fin 300)"

definition caught :: "bool \<Rightarrow> error \<Rightarrow> outcome" where
  "caught normalized err =
     \<lparr> reply = \<lparr> status = 400, text_body = jstr ''signature verification failed'' \<rparr>,
       normalize_called = normalized, tasks = [], logged = Some err \<rparr>"

text \<open>\<^verbatim>\<open>request.headers.get("Stripe-Signature") || ""\<close>.\<close>

definition orEmpty :: "jsstring option \<Rightarrow> jsstring" where
  "orEmpty s = (case truthyStr s of Some h \<Rightarrow> h | None \<Rightarrow> [])"

text \<open>The call of \<^verbatim>\<open>verifyStripeSignature\<close> in \<^verbatim>\<open>fetch\<close>, with the arguments of lines 35 to 42.\<close>

definition verify_request :: "platform \<Rightarrow> env \<Rightarrow> request \<Rightarrow> error + unit" where
  "verify_request P e req =
     (let sigHeader = orEmpty (stripe_signature req) in
      verifyStripeSignature (crypto_hmac P) (now_verify P) sigHeader (rawBody req)
        (STRIPE_WEBHOOK_SECRET e) (Some (tolerance_of_env e)))"

text \<open>The branch of \<^verbatim>\<open>fetch\<close> for \<^verbatim>\<open>POST /stripe-webhook\<close>: the \<^verbatim>\<open>try\<close> block and its \<^verbatim>\<open>catch\<close>.\<close>

definition stripe_webhook :: "platform \<Rightarrow> env \<Rightarrow> request \<Rightarrow> outcome" where
  "stripe_webhook P e req =
     (case verify_request P e req of
        Inl err \<Rightarrow> caught False err
      | Inr _ \<Rightarrow>
          (case JSON_parse P (rawBody req) of
             None \<Rightarrow> caught False SyntaxError
           | Some evt \<Rightarrow>
               (case dot evt (jstr ''type'') of
                  Inl err \<Rightarrow> caught False err
                | Inr evt_type \<Rightarrow>
                    if evt_type \<notin> set okTypes then
                      \<lparr> reply = \<lparr> status = 200, text_body = jstr ''ignored'' \<rparr>,
                        normalize_called = False, tasks = [], logged = None \<rparr>
                    else
                      (case normalizeStripeEvent (now_normalize P) evt of
                         Inl err \<Rightarrow> caught True err
                       | Inr info \<Rightarrow>
                           \<lparr> reply = \<lparr> status = 200, text_body = jstr ''ok'' \<rparr>,
                             normalize_called = True,
                             tasks = map (\<lambda>c. (c, run_task P e info c)) (enabled_channels e),
                             logged = None \<rparr>))))"

definition fetch :: "platform \<Rightarrow> env \<Rightarrow> request \<Rightarrow> outcome" where
  "fetch P e req =
     (if method_name req = jstr ''GET'' \<and> pathname req = jstr ''/health'' then
        \<lparr> reply = \<lparr> status = 200, text_body = jstr ''ok'' \<rparr>,
          normalize_called = False, tasks = [], logged = None \<rparr>
      else if method_name req = jstr ''POST'' \<and> pathname req = jstr ''/stripe-webhook'' then
        stripe_webhook P e req
      else
        \<lparr> reply = \<lparr> status = 404, text_body = jstr ''Not Found'' \<rparr>,
          normalize_called = False, tasks = [], logged = None \<rparr>)"

section \<open>Sample inputs\<close>

text \<open>
  A stand-in for the runtime's HMAC, used where a theorem is applied to concrete inputs.
  The theorems themselves hold for every function \<open>hmac\<close>.
\<close>

definition sample_hmac :: hmac_sha256 where
  "sample_hmac key msg = [of_nat (length key), of_nat (length msg), 0xBE, 0xEF]"


text \<open>
  The integers on which the model's numbers and the code's doubles agree: every integer of
  magnitude at most \<open>2^53\<close> is a double, \<^verbatim>\<open>parseInt\<close> returns it exactly, and
  \<^verbatim>\<open>String\<close> prints all its digits.
\<close>

definition exactInt :: "int \<Rightarrow> bool" where
  "exactInt n \<longleftrightarrow> \<bar>n\<bar> \<le> 2 ^ 53"


text \<open>
  Sample events. The first is a payment intent without a \<^verbatim>\<open>created\<close> field:
  \<^verbatim>\<open>{"type":"payment_intent.succeeded","data":{"object":{"id":"pi_1","amount":1999,"currency":"usd"}}}\<close>.
  The second has no \<^verbatim>\<open>data\<close> at all:
  \<^verbatim>\<open>{"id":"evt_1","type":"payment_intent.succeeded"}\<close>.
  The third orders minus three items:
  \<^verbatim>\<open>{"type":"checkout.session.completed","data":{"object":{"id":"cs_1","metadata":{"quantity":"-3"}}}}\<close>.
  The fourth is a session that is free of charge and carries an amount of another kind, with an
  empty identifier:
  \<^verbatim>\<open>{"id":"evt_4","type":"checkout.session.completed","data":{"object":{"id":"","payment_intent":"pi_9","amount_total":0,"amount":1999}}}\<close>.
\<close>

definition sample_event_intent :: jsval where
  "sample_event_intent =
     JObj [(jstr ''type'', JStr (jstr ''payment_intent.succeeded'')),
           (jstr ''data'',
            JObj [(jstr ''object'',
                   JObj [(jstr ''id'', JStr (jstr ''pi_1'')),
                         (jstr ''amount'', JNum (Fin 1999)),
                         (jstr ''currency'', JStr (jstr ''usd''))])])]"

definition sample_event_no_data :: jsval where
  "sample_event_no_data =
     JObj [(jstr ''id'', JStr (jstr ''evt_1'')),
           (jstr ''type'', JStr (jstr ''payment_intent.succeeded''))]"

definition sample_event_negative_quantity :: jsval where
  "sample_event_negative_quantity =
     JObj [(jstr ''type'', JStr (jstr ''checkout.session.completed'')),
           (jstr ''data'',
            JObj [(jstr ''object'',
                   JObj [(jstr ''id'', JStr (jstr ''cs_1'')),
                         (jstr ''metadata'', JObj [(jstr ''quantity'', JStr (jstr ''-3''))])])])]"

definition sample_event_free :: jsval where
  "sample_event_free =
     JObj [(jstr ''id'', JStr (jstr ''evt_4'')),
           (jstr ''type'', JStr (jstr ''checkout.session.completed'')),
           (jstr ''data'',
            JObj [(jstr ''object'',
                   JObj [(jstr ''id'', JStr []),
                         (jstr ''payment_intent'', JStr (jstr ''pi_9'')),
                         (jstr ''amount_total'', JNum (Fin 0)),
                         (jstr ''amount'', JNum (Fin 1999))])])]"

text \<open>
  The fifth is a paid invoice with a creation time:
  \<^verbatim>\<open>{"type":"invoice.payment_succeeded","data":{"object":{"id":"in_1","created":1700000000,"amount_paid":500,"currency":"eur"}}}\<close>.
\<close>

definition sample_event_invoice :: jsval where
  "sample_event_invoice =
     JObj [(jstr ''type'', JStr (jstr ''invoice.payment_succeeded'')),
           (jstr ''data'',
            JObj [(jstr ''object'',
                   JObj [(jstr ''id'', JStr (jstr ''in_1'')),
                         (jstr ''created'', JNum (Fin 1700000000)),
                         (jstr ''amount_paid'', JNum (Fin 500)),
                         (jstr ''currency'', JStr (jstr ''eur''))])])]"

text \<open>The alphabet of Base64, and what \<^verbatim>\<open>encodeURIComponent\<close> makes of each of its characters.\<close>

definition isBase64Char :: "code_unit \<Rightarrow> bool" where
  "isBase64Char c \<longleftrightarrow>
     (0x41 \<le> c \<and> c \<le> 0x5A) \<or> (0x61 \<le> c \<and> c \<le> 0x7A) \<or> (0x30 \<le> c \<and> c \<le> 0x39)
     \<or> c = 0x2B \<or> c = 0x2F \<or> c = 0x3D"

definition escapeBase64Char :: "code_unit \<Rightarrow> jsstring" where
  "escapeBase64Char c =
     (if c = 0x2B then jstr ''%2B'' else if c = 0x2F then jstr ''%2F''
      else if c = 0x3D then jstr ''%3D'' else [c])"

text \<open>
  A configuration with three notifiers enabled (mail, ServerChan and DingTalk with a signing
  secret) and Telegram left out.
\<close>

definition sample_env :: env where
  "sample_env =
     \<lparr> STRIPE_WEBHOOK_SECRET = Some (jstr ''whsec''),
       SIG_TOLERANCE_SEC = None,
       MAIL_TO = Some (jstr ''ops@example.com''),
       MAIL_FROM = Some (jstr ''no-reply@example.com''),
       SC_KEY = Some (jstr ''SCT1''),
       DINGTALK_WEBHOOK = Some (jstr ''https://oapi.dingtalk.com/robot/send?access_token=T''),
       DINGTALK_SECRET = Some (jstr ''SEC1''),
       TELEGRAM_BOT_TOKEN = None,
       TELEGRAM_CHAT_ID = None \<rparr>"

text \<open>
  Request bodies: the payment intent above as JSON, an event of another type, the JSON
  value null, and a body that is not JSON.
\<close>

definition body_intent :: jsstring where
  \<open>body_intent =
     jstr ''{"type":"payment_intent.succeeded","data":{"object":{"id":"pi_1","amount":1999,"currency":"usd"}}}''\<close>

definition body_customer :: jsstring where
  \<open>body_customer = jstr ''{"type":"customer.created"}''\<close>

definition body_null :: jsstring where
  "body_null = jstr ''null''"

definition body_not_json :: jsstring where
  "body_not_json = jstr ''oops''"

text \<open>
  The values of \<^verbatim>\<open>JSON.parse\<close> on these four bodies. On other strings this table says
  nothing about \<^verbatim>\<open>JSON.parse\<close> (it answers \<open>None\<close>); it is used on these four only.
\<close>

definition sample_JSON_parse :: "jsstring \<Rightarrow> jsval option" where
  "sample_JSON_parse s =
     (if s = body_intent then Some sample_event_intent
      else if s = body_customer then
        Some (JObj [(jstr ''type'', JStr (jstr ''customer.created''))])
      else if s = body_null then Some JNull
      else None)"

text \<open>
  A platform whose clock reads 1700000100 seconds at verification and on which the
  ServerChan notifier always fails while all others succeed.
\<close>

definition sample_deliver :: "channel \<Rightarrow> jsstring option \<Rightarrow> PaymentRecord \<Rightarrow> error option" where
  "sample_deliver c target info = (if c = ServerChan then Some DeliveryError else None)"

definition sample_platform :: platform where
  "sample_platform =
     \<lparr> crypto_hmac = sample_hmac,
       JSON_parse = sample_JSON_parse,
       now_verify = 1700000100999,
       now_normalize = 1700000101000,
       now_dingtalk = 1700000101005,
       deliver = sample_deliver \<rparr>"

text \<open>
  A webhook request with a given body and signature header. The tags below are those of
  \<open>sample_hmac\<close> under the secret of \<open>sample_env\<close> for the timestamp 1700000000.
\<close>

definition webhook_request :: "jsstring \<Rightarrow> jsstring \<Rightarrow> request" where
  "webhook_request header payload =
     \<lparr> method_name = jstr ''POST'', pathname = jstr ''/stripe-webhook'',
       stripe_signature = Some header, rawBody = payload \<rparr>"

definition request_intent :: request where
  "request_intent = webhook_request (jstr ''t=1700000000,v1=056dbeef'') body_intent"

definition request_customer :: request where
  "request_customer = webhook_request (jstr ''t=1700000000,v1=0526beef'') body_customer"

definition request_null :: request where
  "request_null = webhook_request (jstr ''t=1700000000,v1=050fbeef'') body_null"

definition request_not_json :: request where
  "request_not_json = webhook_request (jstr ''t=1700000000,v1=050fbeef'') body_not_json"

text \<open>The payment record of the first sample event, normalised at the sample platform's clock.\<close>

definition sample_record :: PaymentRecord where
  "sample_record =
     \<lparr> event_type = JStr (jstr ''payment_intent.succeeded''),
       id_field = JStr (jstr ''pi_1''),
       created_ms = Fin 1700000101000,
       currency = jstr ''USD'',
       amount_minor = JNum (Fin 1999),
       amount_readable = jstr ''USD 19.99'',
       email = JNull,
       order_no = JStr (jstr ''pi_1''),
       product_name = JStr [0x652F, 0x4ED8],
       quantity = Fin 1,
       payment_method = JStr (jstr ''stripe''),
       customer_id = JNull \<rparr>"

section \<open>Evaluation on concrete inputs\<close>

text \<open>
  The defining equations with which the simplifier evaluates the model on concrete
  strings, MACs and events.
\<close>

lemmas str_eval =
  jstr_def trim_def trimStart_def isWhiteSpace_def isDigit_def digitsValue_def parseInt10_def
  Let_def natToDigits.simps numToString_def

lemmas mac_eval =
  sample_hmac_def bufferToHex_def padStart_def byteToString16_def hexDigit_def
  utf8_of_code_point_def isHighSurrogate_def isLowSurrogate_def

lemmas js_eval =
  str_eval normalizeStripeEvent_def dot_def nullish_def dataObject_def por_def optdot_def
  amountMinorOf_def qq_def createdMsOf_def formatAmount_def centsToFixed2_def twoDigits_def
  quantityOf_def toUpperCase_def

section \<open>Properties of the comparison\<close>

lemma ct_loop_seen: "snd (ct_loop a b i r seen) = seen @ [i..<length a]"
proof (induction a b i r seen rule: ct_loop.induct)
  case (1 a b i r seen)
  show ?case
  proof (cases "i < length a")
    case True
    then show ?thesis
      using "1.IH" by (subst ct_loop.simps) (simp add: upt_conv_Cons)
  next
    case False
    then show ?thesis by (subst ct_loop.simps) simp
  qed
qed

lemma ucast_code_unit_inj: "(ucast (x :: code_unit) :: 32 word) = ucast y \<longleftrightarrow> x = y"
proof
  assume "(ucast x :: 32 word) = ucast y"
  then have "unat (ucast x :: 32 word) = unat (ucast y :: 32 word)" by simp
  moreover have "unat x < 2 ^ 32" "unat y < 2 ^ 32"
    using unsigned_less [of x, where ?'a = nat] unsigned_less [of y, where ?'a = nat] by simp_all
  ultimately have "unat x = unat y"
    by (simp add: unsigned_ucast_eq take_bit_nat_eq_self)
  then show "x = y" by (simp add: word_unat_eq_iff)
qed simp

lemma xor_code_units_zero:
  "(ucast (x :: code_unit) :: 32 word) XOR ucast (y :: code_unit) = 0 \<longleftrightarrow> x = y"
  using ucast_code_unit_inj [of x y] by (metis bit.xor_left_self word_bw_same(3))

lemma ct_loop_zero:
  "length a = length b \<Longrightarrow>
   fst (ct_loop a b i r seen) = 0 \<longleftrightarrow> r = 0 \<and> (\<forall>j. i \<le> j \<and> j < length a \<longrightarrow> a ! j = b ! j)"
proof (induction a b i r seen rule: ct_loop.induct)
  case (1 a b i r seen)
  show ?case
  proof (cases "i < length a")
    case True
    have step: "(\<forall>j. i \<le> j \<and> j < length a \<longrightarrow> a ! j = b ! j) \<longleftrightarrow>
                a ! i = b ! i \<and> (\<forall>j. i + 1 \<le> j \<and> j < length a \<longrightarrow> a ! j = b ! j)"
    proof (intro iffI conjI allI impI)
      fix j
      assume h: "a ! i = b ! i \<and> (\<forall>j. i + 1 \<le> j \<and> j < length a \<longrightarrow> a ! j = b ! j)"
        and j: "i \<le> j \<and> j < length a"
      show "a ! j = b ! j"
      proof (cases "j = i")
        case True
        with h show ?thesis by simp
      next
        case False
        with j have "i + 1 \<le> j \<and> j < length a" by arith
        with h show ?thesis by blast
      qed
    qed (use True in auto)
    have "fst (ct_loop a b i r seen) =
          fst (ct_loop a b (i + 1) (r OR (toInt32 (charCodeAt a i) XOR toInt32 (charCodeAt b i))) (seen @ [i]))"
      using True by (subst ct_loop.simps) simp
    moreover have "toInt32 (charCodeAt a i) XOR toInt32 (charCodeAt b i) = 0 \<longleftrightarrow> a ! i = b ! i"
      using True "1.prems" by (simp add: charCodeAt_def toInt32_def xor_code_units_zero)
    ultimately show ?thesis
      using "1.IH" [OF True "1.prems"] step by (simp only: or_eq_0_iff) blast
  next
    case False
    then have none: "\<forall>j. \<not> (i \<le> j \<and> j < length a)" by arith
    have "fst (ct_loop a b i r seen) = r"
      by (subst ct_loop.simps) (simp add: False)
    with none show ?thesis by auto
  qed
qed

lemma constantTimeEqual_iff: "constantTimeEqual a b \<longleftrightarrow> a = b"
proof (cases "length a = length b")
  case True
  then have "constantTimeEqual a b \<longleftrightarrow> fst (ct_loop a b 0 0 []) = 0"
    by (simp add: constantTimeEqual_def constantTimeEqual_run_def split: prod.splits)
  also have "\<dots> \<longleftrightarrow> (\<forall>j. j < length a \<longrightarrow> a ! j = b ! j)"
    using ct_loop_zero [OF True, of 0 0 "[]"] by simp
  also have "\<dots> \<longleftrightarrow> a = b"
    using True by (auto simp: list_eq_iff_nth_eq)
  finally show ?thesis .
next
  case False
  then show ?thesis
    by (auto simp: constantTimeEqual_def constantTimeEqual_run_def)
qed

lemma constantTimeEqual_run_seen:
  "length a = length b \<Longrightarrow> snd (constantTimeEqual_run a b) = [0..<length a]"
  using ct_loop_seen [of a b 0 0 "[]"]
  by (cases "ct_loop a b 0 0 []") (simp add: constantTimeEqual_run_def)

text \<open>
  C5. The comparison of two tags: when the lengths differ it returns \<open>False\<close> at once,
  reading no position (and raising nothing: the function is total); when the lengths
  agree the loop reads every position \<open>0, 1, ..., length a - 1\<close> whatever the contents
  are, so it never leaves at the first mismatch; and the result is \<open>True\<close> exactly when
  the two strings are identical.
\<close>

theorem constantTimeEqual_correct:
  "(length a \<noteq> length b \<longrightarrow> constantTimeEqual_run a b = (False, [])) \<and>
   (length a = length b \<longrightarrow> snd (constantTimeEqual_run a b) = [0..<length a]) \<and>
   (constantTimeEqual a b \<longleftrightarrow> a = b)"
  using constantTimeEqual_iff [of a b] constantTimeEqual_run_seen [of a b]
  by (simp add: constantTimeEqual_run_def)

text \<open>
  The theorem at two pairs of tags: one of unequal lengths, and one of equal lengths
  that differ at the first position, where all four positions are still read.
\<close>

theorem constantTimeEqual_correct_witness:
  "length (jstr ''abc'') \<noteq> length (jstr ''abcd'') \<and>
   constantTimeEqual_run (jstr ''abc'') (jstr ''abcd'') = (False, []) \<and>
   length (jstr ''xbcd'') = length (jstr ''abcd'') \<and>
   snd (constantTimeEqual_run (jstr ''xbcd'') (jstr ''abcd'')) = [0, 1, 2, 3] \<and>
   \<not> constantTimeEqual (jstr ''xbcd'') (jstr ''abcd'')"
proof -
  have up: "[0..<4] = [0, 1, 2, 3::nat]" by (simp add: upt_rec)
  show ?thesis
    using constantTimeEqual_correct [of "jstr ''abc''" "jstr ''abcd''"]
          constantTimeEqual_correct [of "jstr ''xbcd''" "jstr ''abcd''"]
    by (simp add: jstr_def up)
qed

section \<open>Properties of the signature verification\<close>

lemma header_loop_nonempty:
  "header_loop kvs parts k = Some v \<Longrightarrow> (\<forall>k v. parts k = Some v \<longrightarrow> v \<noteq> []) \<Longrightarrow> v \<noteq> []"
proof (induction kvs arbitrary: parts)
  case Nil
  then show ?case by simp
next
  case (Cons kv kvs)
  show ?case
  proof (cases "split 0x3D (trim kv)")
    case Nil
    with Cons show ?thesis by simp
  next
    case outer: (Cons k1 rest)
    show ?thesis
    proof (cases rest)
      case Nil
      with outer Cons show ?thesis by simp
    next
      case inner: (Cons v1 rest')
      let ?parts' = "if k1 \<noteq> [] \<and> v1 \<noteq> [] then parts(k1 \<mapsto> v1) else parts"
      have "header_loop kvs ?parts' k = Some v"
        using Cons.prems(1) outer inner by simp
      moreover have "\<forall>k v. ?parts' k = Some v \<longrightarrow> v \<noteq> []"
        using Cons.prems(2) by auto
      ultimately show ?thesis by (rule Cons.IH)
    qed
  qed
qed

lemma parseSignatureHeader_nonempty:
  "parseSignatureHeader hdr k = Some v \<Longrightarrow> v \<noteq> []"
  unfolding parseSignatureHeader_def by (erule header_loop_nonempty) simp











text \<open>
  A tolerance that is NaN, which the handler passes when \<^verbatim>\<open>SIG_TOLERANCE_SEC\<close> holds
  no number, switches the freshness check off: for a timestamp in the exact range the
  verifier then decides by the tag alone.
\<close>

lemma verifyStripeSignature_NaN_tolerance:
  assumes "secret \<noteq> []"
    and "parseSignatureHeader hdr (jstr ''t'') = Some t"
    and "parseSignatureHeader hdr (jstr ''v1'') = Some v1"
    and "parseInt10 t = Fin n"
    and "exactInt n"
  shows "verifyStripeSignature hmac now_ms hdr payload (Some secret) (Some NaN) = Inr () \<longleftrightarrow>
           v1 = bufferToHex (hmac (TextEncoder_encode secret) (TextEncoder_encode (t @ jstr ''.'' @ payload)))"
  using assms parseSignatureHeader_nonempty [OF assms(2)] parseSignatureHeader_nonempty [OF assms(3)]
  by (auto simp: verifyStripeSignature_def Let_def truthyStr_def greaterThan_def
                 constantTimeEqual_iff hmacSHA256Hex_def)

section \<open>Properties of the normalisation\<close>

text \<open>
  The records of the sample events. The first is the record of the spec's boundary scenario 1: the amount reads
  \<^verbatim>\<open>USD 19.99\<close> and the order number is \<^verbatim>\<open>pi_1\<close>.
\<close>

lemma normalize_sample_intent:
  "normalizeStripeEvent now_ms sample_event_intent =
     Inr \<lparr> event_type = JStr (jstr ''payment_intent.succeeded''),
           id_field = JStr (jstr ''pi_1''),
           created_ms = Fin now_ms,
           currency = jstr ''USD'',
           amount_minor = JNum (Fin 1999),
           amount_readable = jstr ''USD 19.99'',
           email = JNull,
           order_no = JStr (jstr ''pi_1''),
           product_name = JStr [0x652F, 0x4ED8],
           quantity = Fin 1,
           payment_method = JStr (jstr ''stripe''),
           customer_id = JNull \<rparr>"
  by (simp add: sample_event_intent_def js_eval)

lemma normalize_sample_invoice:
  "normalizeStripeEvent now_ms sample_event_invoice =
     Inr \<lparr> event_type = JStr (jstr ''invoice.payment_succeeded''),
           id_field = JStr (jstr ''in_1''),
           created_ms = Fin 1700000000000,
           currency = jstr ''EUR'',
           amount_minor = JNum (Fin 500),
           amount_readable = jstr ''EUR 5.00'',
           email = JNull,
           order_no = JStr (jstr ''in_1''),
           product_name = JStr [0x652F, 0x4ED8],
           quantity = Fin 1,
           payment_method = JStr (jstr ''stripe''),
           customer_id = JNull \<rparr>"
  by (simp add: sample_event_invoice_def js_eval)

lemma normalize_sample_no_data:
  "normalizeStripeEvent now_ms sample_event_no_data =
     Inr \<lparr> event_type = JStr (jstr ''payment_intent.succeeded''),
           id_field = JStr (jstr ''evt_1''),
           created_ms = Fin now_ms,
           currency = jstr ''USD'',
           amount_minor = JNum (Fin 0),
           amount_readable = jstr ''USD 0.00'',
           email = JNull,
           order_no = JStr (jstr ''evt_1''),
           product_name = JStr [0x652F, 0x4ED8],
           quantity = Fin 1,
           payment_method = JStr (jstr ''stripe''),
           customer_id = JNull \<rparr>"
  by (simp add: sample_event_no_data_def js_eval)

lemma normalize_sample_negative_quantity:
  "normalizeStripeEvent now_ms sample_event_negative_quantity =
     Inr \<lparr> event_type = JStr (jstr ''checkout.session.completed''),
           id_field = JStr (jstr ''cs_1''),
           created_ms = Fin now_ms,
           currency = jstr ''USD'',
           amount_minor = JNum (Fin 0),
           amount_readable = jstr ''USD 0.00'',
           email = JNull,
           order_no = JStr (jstr ''cs_1''),
           product_name = JStr [0x652F, 0x4ED8],
           quantity = Fin (- 3),
           payment_method = JStr (jstr ''stripe''),
           customer_id = JNull \<rparr>"
  by (simp add: sample_event_negative_quantity_def js_eval)

lemma normalize_sample_free:
  "normalizeStripeEvent now_ms sample_event_free =
     Inr \<lparr> event_type = JStr (jstr ''checkout.session.completed''),
           id_field = JStr (jstr ''evt_4''),
           created_ms = Fin now_ms,
           currency = jstr ''USD'',
           amount_minor = JNum (Fin 0),
           amount_readable = jstr ''USD 0.00'',
           email = JNull,
           order_no = JStr (jstr ''pi_9''),
           product_name = JStr [0x652F, 0x4ED8],
           quantity = Fin 1,
           payment_method = JStr (jstr ''stripe''),
           customer_id = JNull \<rparr>"
  by (simp add: sample_event_free_def js_eval)

lemma normalize_Inr:
  assumes "normalizeStripeEvent now_ms evt = Inr r"
  shows "\<not> nullish evt"
    and "amount_minor r = amountMinorOf (dataObject (getProp evt (jstr ''data'')))"
    and "quantityOf (dataObject (getProp evt (jstr ''data''))) = Inr (quantity r)"
    and "createdMsOf now_ms (dataObject (getProp evt (jstr ''data''))) = Inr (created_ms r)"
    and "id_field r = por (getProp (dataObject (getProp evt (jstr ''data''))) (jstr ''id'')) (getProp evt (jstr ''id''))"
    and "order_no r =
           por (por (por (por (por (getProp (dataObject (getProp evt (jstr ''data''))) (jstr ''id''))
                                   (getProp (dataObject (getProp evt (jstr ''data''))) (jstr ''payment_intent'')))
                              (getProp (dataObject (getProp evt (jstr ''data''))) (jstr ''charge'')))
                         (getProp (dataObject (getProp evt (jstr ''data''))) (jstr ''subscription'')))
                    (getProp (dataObject (getProp evt (jstr ''data''))) (jstr ''invoice'')))
               (getProp evt (jstr ''id''))"
  using assms
  by (auto simp: normalizeStripeEvent_def Let_def dot_def split: sum.splits if_splits)

lemma createdMsOf_truthy:
  "truthy (getProp obj (jstr ''created'')) \<Longrightarrow> createdMsOf now1 obj = createdMsOf now2 obj"
  by (simp add: createdMsOf_def)

lemma createdMsOf_falsy:
  "\<not> truthy (getProp obj (jstr ''created'')) \<Longrightarrow> createdMsOf now_ms obj = Inr (Fin now_ms)"
  by (simp add: createdMsOf_def)

lemma createdMsOf_error:
  "createdMsOf now1 obj = Inl err \<Longrightarrow> createdMsOf now2 obj = Inl err"
  by (auto simp: createdMsOf_def split: if_splits sum.splits)

lemma createdMsOf_Inr:
  "createdMsOf now1 obj = Inr x \<Longrightarrow> \<exists>y. createdMsOf now2 obj = Inr y"
  by (auto simp: createdMsOf_def split: if_splits sum.splits)

text \<open>
  C3, as the claim states it, fails: the same event normalised at two readings of the
  clock gives two different records.
\<close>

theorem normalize_not_pure_counterexample:
  "normalizeStripeEvent 1000 sample_event_intent \<noteq> normalizeStripeEvent 2000 sample_event_intent"
  by (simp add: normalize_sample_intent)

text \<open>
  C3, amended. The record is a function of the event and of the reading of the clock
  during the call. Two evaluations of the same event, at any two readings, raise the
  same error or return records that agree on every field other than \<open>created_ms\<close>;
  they agree on that field too when \<^verbatim>\<open>data.object.created\<close> is truthy; when it is not,
  \<open>created_ms\<close> is the reading of the clock.
\<close>

theorem normalize_clock:
  "map_sum id (\<lambda>r. r\<lparr>created_ms := NaN\<rparr>) (normalizeStripeEvent now1 evt)
     = map_sum id (\<lambda>r. r\<lparr>created_ms := NaN\<rparr>) (normalizeStripeEvent now2 evt)
   \<and> (truthy (getProp (dataObject (getProp evt (jstr ''data''))) (jstr ''created'')) \<longrightarrow>
        normalizeStripeEvent now1 evt = normalizeStripeEvent now2 evt)
   \<and> (\<not> truthy (getProp (dataObject (getProp evt (jstr ''data''))) (jstr ''created'')) \<longrightarrow>
        normalizeStripeEvent now1 evt = Inr r \<longrightarrow> created_ms r = Fin now1)"
proof (intro conjI impI)
  show "map_sum id (\<lambda>r. r\<lparr>created_ms := NaN\<rparr>) (normalizeStripeEvent now1 evt)
     = map_sum id (\<lambda>r. r\<lparr>created_ms := NaN\<rparr>) (normalizeStripeEvent now2 evt)"
  proof (cases "createdMsOf now1 (dataObject (getProp evt (jstr ''data'')))")
    case (Inl err)
    from createdMsOf_error [OF this, of now2] Inl show ?thesis
      by (simp add: normalizeStripeEvent_def Let_def dot_def split: sum.splits)
  next
    case (Inr x)
    from createdMsOf_Inr [OF this, of now2] obtain y
      where "createdMsOf now2 (dataObject (getProp evt (jstr ''data''))) = Inr y" by blast
    with Inr show ?thesis
      by (simp add: normalizeStripeEvent_def Let_def dot_def split: sum.splits)
  qed
next
  assume "truthy (getProp (dataObject (getProp evt (jstr ''data''))) (jstr ''created''))"
  from createdMsOf_truthy [OF this, of now1 now2]
  show "normalizeStripeEvent now1 evt = normalizeStripeEvent now2 evt"
    by (simp add: normalizeStripeEvent_def Let_def dot_def split: sum.splits)
next
  assume f: "\<not> truthy (getProp (dataObject (getProp evt (jstr ''data''))) (jstr ''created''))"
    and r: "normalizeStripeEvent now1 evt = Inr r"
  from normalize_Inr(4) [OF r] createdMsOf_falsy [OF f, of now1]
  show "created_ms r = Fin now1" by simp
qed

theorem normalize_clock_witness:
  "truthy (getProp (dataObject (getProp sample_event_invoice (jstr ''data''))) (jstr ''created'')) \<and>
   normalizeStripeEvent 1000 sample_event_invoice = normalizeStripeEvent 2000 sample_event_invoice \<and>
   \<not> truthy (getProp (dataObject (getProp sample_event_intent (jstr ''data''))) (jstr ''created'')) \<and>
   normalizeStripeEvent 1000 sample_event_intent = Inr (projr (normalizeStripeEvent 1000 sample_event_intent)) \<and>
   created_ms (projr (normalizeStripeEvent 1000 sample_event_intent)) = Fin 1000"
proof -
  have h1: "truthy (getProp (dataObject (getProp sample_event_invoice (jstr ''data''))) (jstr ''created''))"
    by (simp add: sample_event_invoice_def js_eval)
  have h2: "\<not> truthy (getProp (dataObject (getProp sample_event_intent (jstr ''data''))) (jstr ''created''))"
    by (simp add: sample_event_intent_def js_eval)
  have h3: "normalizeStripeEvent 1000 sample_event_intent = Inr (projr (normalizeStripeEvent 1000 sample_event_intent))"
    by (simp add: normalize_sample_intent)
  from h1 h2 h3
    normalize_clock [of 1000 sample_event_invoice 2000]
    normalize_clock [of 1000 sample_event_intent 2000 "projr (normalizeStripeEvent 1000 sample_event_intent)"]
  show ?thesis by blast
qed

lemma dataObject_missing:
  "optdot evt_data (jstr ''object'') = JUndefined \<Longrightarrow> dataObject evt_data = JObj []"
  by (simp add: dataObject_def por_def)

lemma quantityOf_empty: "quantityOf (JObj []) = Inr (Fin 1)"
  by (simp add: js_eval)

lemma amountMinorOf_empty: "amountMinorOf (JObj []) = JNum (Fin 0)"
  by (simp add: js_eval)

lemma currency_default:
  "toString_js (por (por (getProp (JObj []) (jstr ''currency'')) (getProp (JObj []) (jstr ''currency_code'')))
                    (JStr (jstr ''usd''))) = Inr (jstr ''usd'')"
  by (simp add: js_eval)

lemma toUpperCase_usd: "toUpperCase (jstr ''usd'') = jstr ''USD''"
  by (simp add: js_eval)

text \<open>
  C4, as the claim states it, fails: for an event without \<^verbatim>\<open>data\<close> the product name
  is the source's two-character literal, not \<^verbatim>\<open>payment\<close>, and the payment method is
  \<^verbatim>\<open>stripe\<close>, not \<^verbatim>\<open>processor\<close>.
\<close>

theorem normalize_defaults_counterexample:
  "map_sum id product_name (normalizeStripeEvent 0 sample_event_no_data) = Inr (JStr [0x652F, 0x4ED8]) \<and>
   map_sum id product_name (normalizeStripeEvent 0 sample_event_no_data) \<noteq> Inr (JStr (jstr ''payment'')) \<and>
   map_sum id payment_method (normalizeStripeEvent 0 sample_event_no_data) = Inr (JStr (jstr ''stripe'')) \<and>
   map_sum id payment_method (normalizeStripeEvent 0 sample_event_no_data) \<noteq> Inr (JStr (jstr ''processor''))"
  by (simp add: normalize_sample_no_data jstr_def)

text \<open>
  C4, amended. For every event that is neither null nor undefined and whose
  \<^verbatim>\<open>data?.object\<close> is missing, normalisation returns a record, and in it the product
  name is the literal of the source (code units 0x652F, 0x4ED8), the quantity is 1, the
  payment method is \<^verbatim>\<open>stripe\<close>, the amount is 0 and the currency is \<^verbatim>\<open>USD\<close>.
\<close>

theorem normalize_defaults:
  assumes "\<not> nullish evt"
    and "optdot (getProp evt (jstr ''data'')) (jstr ''object'') = JUndefined"
  shows "\<exists>r. normalizeStripeEvent now_ms evt = Inr r \<and>
             product_name r = JStr [0x652F, 0x4ED8] \<and>
             quantity r = Fin 1 \<and>
             payment_method r = JStr (jstr ''stripe'') \<and>
             amount_minor r = JNum (Fin 0) \<and>
             currency r = jstr ''USD''"
proof -
  have obj: "dataObject (getProp evt (jstr ''data'')) = JObj []"
    using assms(2) by (rule dataObject_missing)
  have fmt: "\<exists>s. formatAmount (JNum (Fin 0)) (jstr ''USD'') = Inr s"
    by (simp add: formatAmount_def)
  then obtain s where s: "formatAmount (JNum (Fin 0)) (jstr ''USD'') = Inr s" ..
  have "normalizeStripeEvent now_ms evt =
        Inr \<lparr> event_type = getProp evt (jstr ''type''),
              id_field = por JUndefined (getProp evt (jstr ''id'')),
              created_ms = Fin now_ms,
              currency = jstr ''USD'',
              amount_minor = JNum (Fin 0),
              amount_readable = s,
              email = JNull,
              order_no = getProp evt (jstr ''id''),
              product_name = JStr [0x652F, 0x4ED8],
              quantity = Fin 1,
              payment_method = JStr (jstr ''stripe''),
              customer_id = JNull \<rparr>"
    using assms(1)
    by (simp add: normalizeStripeEvent_def dot_def obj currency_default toUpperCase_usd
                  amountMinorOf_empty quantityOf_empty createdMsOf_def s por_def optdot_def nullish_def)
  then show ?thesis by simp
qed

theorem normalize_defaults_witness:
  "\<not> nullish sample_event_no_data \<and>
   optdot (getProp sample_event_no_data (jstr ''data'')) (jstr ''object'') = JUndefined \<and>
   (\<exists>r. normalizeStripeEvent 1700000000000 sample_event_no_data = Inr r \<and>
             product_name r = JStr [0x652F, 0x4ED8] \<and>
             quantity r = Fin 1 \<and>
             payment_method r = JStr (jstr ''stripe'') \<and>
             amount_minor r = JNum (Fin 0) \<and>
             currency r = jstr ''USD'')"
proof -
  have h1: "\<not> nullish sample_event_no_data"
    by (simp add: sample_event_no_data_def nullish_def)
  have h2: "optdot (getProp sample_event_no_data (jstr ''data'')) (jstr ''object'') = JUndefined"
    by (simp add: sample_event_no_data_def js_eval)
  from h1 h2 normalize_defaults [OF h1 h2, of 1700000000000] show ?thesis by blast
qed

lemma qq_chain:
  "qq (qq (qq (qq (qq a b) c) d) e) z =
     (case filter (\<lambda>v. \<not> nullish v) [a, b, c, d, e] of [] \<Rightarrow> z | v # _ \<Rightarrow> v)"
  by (simp add: qq_def)

lemma por_chain:
  "por (por (por (por (por a b) c) d) e) z =
     (case filter truthy [a, b, c, d, e] of [] \<Rightarrow> z | v # _ \<Rightarrow> v)"
  by (simp add: por_def)

text \<open>
  C10. In a record that normalisation returns, \<open>amount_minor\<close> is the first of the five
  candidates, in the order of the source, that is neither undefined nor null, and 0 when
  there is none. A first candidate equal to 0 therefore wins whatever the later ones
  hold. The chain of \<open>order_no\<close> is different: it takes the first truthy candidate, so an
  empty or zero identifier gives way to a later one.
\<close>

theorem amount_minor_nullish_chain:
  assumes "normalizeStripeEvent now_ms evt = Inr r"
    and "obj = dataObject (getProp evt (jstr ''data''))"
  shows "amount_minor r =
           (case filter (\<lambda>v. \<not> nullish v)
                   (map (getProp obj)
                      [jstr ''amount_total'', jstr ''amount_paid'', jstr ''amount_due'',
                       jstr ''amount'', jstr ''amount_captured''])
            of [] \<Rightarrow> JNum (Fin 0) | v # _ \<Rightarrow> v)
         \<and> (getProp obj (jstr ''amount_total'') = JNum (Fin 0) \<longrightarrow> amount_minor r = JNum (Fin 0))
         \<and> order_no r =
           (case filter truthy
                   (map (getProp obj)
                      [jstr ''id'', jstr ''payment_intent'', jstr ''charge'',
                       jstr ''subscription'', jstr ''invoice''])
            of [] \<Rightarrow> getProp evt (jstr ''id'') | v # _ \<Rightarrow> v)
         \<and> (\<not> truthy (getProp obj (jstr ''id'')) \<longrightarrow> truthy (getProp obj (jstr ''payment_intent'')) \<longrightarrow>
              order_no r = getProp obj (jstr ''payment_intent''))"
proof -
  have a: "amount_minor r =
           (case filter (\<lambda>v. \<not> nullish v)
                   (map (getProp obj)
                      [jstr ''amount_total'', jstr ''amount_paid'', jstr ''amount_due'',
                       jstr ''amount'', jstr ''amount_captured''])
            of [] \<Rightarrow> JNum (Fin 0) | v # _ \<Rightarrow> v)"
    unfolding normalize_Inr(2) [OF assms(1)] amountMinorOf_def qq_chain assms(2) by simp
  have b: "getProp obj (jstr ''amount_total'') = JNum (Fin 0) \<longrightarrow> amount_minor r = JNum (Fin 0)"
    unfolding a by (simp add: nullish_def)
  have c: "order_no r =
           (case filter truthy
                   (map (getProp obj)
                      [jstr ''id'', jstr ''payment_intent'', jstr ''charge'',
                       jstr ''subscription'', jstr ''invoice''])
            of [] \<Rightarrow> getProp evt (jstr ''id'') | v # _ \<Rightarrow> v)"
    unfolding normalize_Inr(6) [OF assms(1)] por_chain assms(2) by simp
  have d: "\<not> truthy (getProp obj (jstr ''id'')) \<longrightarrow> truthy (getProp obj (jstr ''payment_intent'')) \<longrightarrow>
              order_no r = getProp obj (jstr ''payment_intent'')"
    unfolding c by simp
  from a b c d show ?thesis by blast
qed

theorem amount_minor_nullish_chain_witness:
  "normalizeStripeEvent 0 sample_event_free = Inr (projr (normalizeStripeEvent 0 sample_event_free)) \<and>
   getProp (dataObject (getProp sample_event_free (jstr ''data''))) (jstr ''amount_total'') = JNum (Fin 0) \<and>
   getProp (dataObject (getProp sample_event_free (jstr ''data''))) (jstr ''amount'') = JNum (Fin 1999) \<and>
   amount_minor (projr (normalizeStripeEvent 0 sample_event_free)) = JNum (Fin 0) \<and>
   \<not> truthy (getProp (dataObject (getProp sample_event_free (jstr ''data''))) (jstr ''id'')) \<and>
   truthy (getProp (dataObject (getProp sample_event_free (jstr ''data''))) (jstr ''payment_intent'')) \<and>
   order_no (projr (normalizeStripeEvent 0 sample_event_free)) = JStr (jstr ''pi_9'')"
proof -
  have h1: "normalizeStripeEvent 0 sample_event_free = Inr (projr (normalizeStripeEvent 0 sample_event_free))"
    by (simp add: normalize_sample_free)
  have h2: "getProp (dataObject (getProp sample_event_free (jstr ''data''))) (jstr ''amount_total'') = JNum (Fin 0)"
    by (simp add: sample_event_free_def js_eval)
  have h3: "getProp (dataObject (getProp sample_event_free (jstr ''data''))) (jstr ''amount'') = JNum (Fin 1999)"
    by (simp add: sample_event_free_def js_eval)
  have h4: "\<not> truthy (getProp (dataObject (getProp sample_event_free (jstr ''data''))) (jstr ''id''))"
    by (simp add: sample_event_free_def js_eval)
  have h6: "getProp (dataObject (getProp sample_event_free (jstr ''data''))) (jstr ''payment_intent'') = JStr (jstr ''pi_9'')"
    by (simp add: sample_event_free_def js_eval)
  have h5: "truthy (getProp (dataObject (getProp sample_event_free (jstr ''data''))) (jstr ''payment_intent''))"
    by (simp only: h6) (simp add: jstr_def)
  note chain = amount_minor_nullish_chain [OF h1 refl]
  have a: "amount_minor (projr (normalizeStripeEvent 0 sample_event_free)) = JNum (Fin 0)"
    using chain h2 by blast
  have "order_no (projr (normalizeStripeEvent 0 sample_event_free)) =
        getProp (dataObject (getProp sample_event_free (jstr ''data''))) (jstr ''payment_intent'')"
    using chain h4 h5 by blast
  then have o: "order_no (projr (normalizeStripeEvent 0 sample_event_free)) = JStr (jstr ''pi_9'')"
    by (simp only: h6)
  from h1 h2 h3 h4 h5 a o show ?thesis by blast
qed

section \<open>Properties of the quantity\<close>

lemma digit_unat: "d < 10 \<Longrightarrow> unat (48 + of_nat d :: code_unit) = 48 + d"
proof -
  assume "d < 10"
  then have "unat (of_nat (48 + d) :: code_unit) = 48 + d"
    by (simp only: unat_of_nat) simp
  then show ?thesis by simp
qed

lemma digit_uint: "d < 10 \<Longrightarrow> uint (48 + of_nat d :: code_unit) = 48 + int d"
  using digit_unat [of d] by (metis (mono_tags, lifting) of_nat_add of_nat_numeral of_nat_unat)

lemma digit_isDigit: "d < 10 \<Longrightarrow> isDigit (48 + of_nat d)"
  using digit_unat [of d] by (simp add: isDigit_def word_le_nat_alt)

lemma digit_not_space: "isDigit c \<Longrightarrow> \<not> isWhiteSpace c \<and> c \<noteq> 0x2D \<and> c \<noteq> 0x2B"
  by (auto simp: isDigit_def isWhiteSpace_def word_le_nat_alt)

lemma natToDigits_digits: "natToDigits n \<noteq> [] \<and> list_all isDigit (natToDigits n)"
proof (induction n rule: natToDigits.induct)
  case (1 n)
  show ?case
  proof (cases "n < 10")
    case True
    then show ?thesis by (subst (1 2) natToDigits.simps) (simp add: digit_isDigit)
  next
    case False
    have "n mod 10 < 10" by simp
    with False "1.IH" show ?thesis
      by (subst (1 2) natToDigits.simps) (simp add: digit_isDigit)
  qed
qed

lemma digitsValue_snoc: "digitsValue (ds @ [c]) = 10 * digitsValue ds + (uint c - 48)"
  by (simp add: digitsValue_def)

lemma digitsValue_natToDigits: "digitsValue (natToDigits n) = int n"
proof (induction n rule: natToDigits.induct)
  case (1 n)
  show ?case
  proof (cases "n < 10")
    case True
    then show ?thesis
      by (subst natToDigits.simps) (simp add: digitsValue_def digit_uint)
  next
    case False
    have m: "n mod 10 < 10" by simp
    from False "1.IH" have "digitsValue (natToDigits (n div 10)) = int (n div 10)" by simp
    with False show ?thesis
      by (subst natToDigits.simps) (simp add: digitsValue_snoc digit_uint [OF m] zdiv_int zmod_int)
  qed
qed

text \<open>
  Parsing the decimal rendering of an integer gives the integer back. This relates the two
  functions of the model; it is used below for integers in the exact range only.
\<close>

lemma parseInt10_numToString: "parseInt10 (numToString (Fin n)) = Fin n"
proof -
  obtain c cs where cs: "natToDigits (nat \<bar>n\<bar>) = c # cs"
    using natToDigits_digits [of "nat \<bar>n\<bar>"] by (cases "natToDigits (nat \<bar>n\<bar>)") auto
  have all: "list_all isDigit (c # cs)"
    using natToDigits_digits [of "nat \<bar>n\<bar>"] cs by simp
  then have c: "isDigit c" by simp
  have tw: "takeWhile isDigit (c # cs) = c # cs"
    using all by (simp add: takeWhile_eq_all_conv list_all_iff)
  have val: "digitsValue (c # cs) = \<bar>n\<bar>"
    using digitsValue_natToDigits [of "nat \<bar>n\<bar>"] cs by simp
  have ws: "\<not> isWhiteSpace 0x2D" by (simp add: isWhiteSpace_def)
  show ?thesis
  proof (cases "n < 0")
    case True
    then have s: "numToString (Fin n) = 0x2D # c # cs"
      using cs by (simp add: numToString_def jstr_def abs_if)
    show ?thesis
      unfolding s parseInt10_def trimStart_def using True tw val ws
      by (simp add: Let_def)
  next
    case False
    then have s: "numToString (Fin n) = c # cs"
      using cs by (simp add: numToString_def abs_if)
    show ?thesis
      unfolding s parseInt10_def trimStart_def using False tw val digit_not_space [OF c]
      by (simp add: Let_def)
  qed
qed

lemma quantityOf_Inr:
  assumes "quantityOf obj = Inr x"
  obtains s where
    "toString_js (por (optdot (getProp obj (jstr ''metadata'')) (jstr ''quantity'')) (JStr (jstr ''1''))) = Inr s"
    and "x = (case parseInt10 s of NaN \<Rightarrow> Fin 1 | Fin n \<Rightarrow> if n = 0 then Fin 1 else Fin n)"
proof (cases "toString_js (por (optdot (getProp obj (jstr ''metadata'')) (jstr ''quantity'')) (JStr (jstr ''1'')))")
  case (Inl err)
  with assms show ?thesis by (simp add: quantityOf_def)
next
  case (Inr s)
  with assms have "x = (let q = parseInt10 s in if truthy (JNum q) then q else Fin 1)"
    by (simp add: quantityOf_def)
  then have "x = (case parseInt10 s of NaN \<Rightarrow> Fin 1 | Fin n \<Rightarrow> if n = 0 then Fin 1 else Fin n)"
    by (cases "parseInt10 s") (simp_all add: Let_def)
  with Inr that show ?thesis by blast
qed

lemma quantityOf_cases:
  assumes "quantityOf obj = Inr x"
    and "q = optdot (getProp obj (jstr ''metadata'')) (jstr ''quantity'')"
  shows "x \<noteq> NaN \<and> x \<noteq> Fin 0"
    and "\<not> truthy q \<Longrightarrow> x = Fin 1"
    and "truthy q \<Longrightarrow> toString_js q = Inr s \<Longrightarrow>
           x = (case parseInt10 s of NaN \<Rightarrow> Fin 1 | Fin n \<Rightarrow> if n = 0 then Fin 1 else Fin n)"
proof -
  from assms(1) obtain s0 where
    s0: "toString_js (por q (JStr (jstr ''1''))) = Inr s0"
    and x: "x = (case parseInt10 s0 of NaN \<Rightarrow> Fin 1 | Fin n \<Rightarrow> if n = 0 then Fin 1 else Fin n)"
    unfolding assms(2) by (rule quantityOf_Inr)
  have one: "parseInt10 (jstr ''1'') = Fin 1" by (simp add: js_eval)
  show "x \<noteq> NaN \<and> x \<noteq> Fin 0"
    unfolding x by (cases "parseInt10 s0") simp_all
  show "x = Fin 1" if "\<not> truthy q"
  proof -
    from that s0 have "s0 = jstr ''1''" by (simp add: por_def)
    with x one show ?thesis by simp
  qed
  show "x = (case parseInt10 s of NaN \<Rightarrow> Fin 1 | Fin n \<Rightarrow> if n = 0 then Fin 1 else Fin n)"
    if "truthy q" and "toString_js q = Inr s"
  proof -
    from that s0 have "s0 = s" by (simp add: por_def)
    with x show ?thesis by simp
  qed
qed

text \<open>
  C8, as the claim states it, fails: a quantity of minus three is kept, not replaced
  by 1.
\<close>

theorem normalize_quantity_counterexample:
  "map_sum id quantity (normalizeStripeEvent 0 sample_event_negative_quantity) = Inr (Fin (- 3)) \<and>
   map_sum id quantity (normalizeStripeEvent 0 sample_event_negative_quantity) \<noteq> Inr (Fin 1)"
  by (simp add: normalize_sample_negative_quantity)

text \<open>
  C8, amended. In a record that normalisation returns, the quantity is never NaN and
  never 0. It is 1 when \<^verbatim>\<open>metadata?.quantity\<close> is absent or falsy, and 1 when
  \<^verbatim>\<open>parseInt\<close> finds no digits in the string form of that value. When \<^verbatim>\<open>parseInt\<close>
  reads an integer \<open>n\<close> of magnitude at most \<open>2^53\<close>, the quantity is \<open>n\<close>, a negative
  \<open>n\<close> included, and 1 when \<open>n\<close> is 0. In particular a number \<open>n\<close> in that range gives
  \<open>n\<close>, and a string gives its parsed prefix. Nothing is stated about values beyond
  \<open>2^53\<close>, where \<^verbatim>\<open>parseInt\<close> rounds or returns Infinity.
\<close>

theorem normalize_quantity:
  assumes "normalizeStripeEvent now_ms evt = Inr r"
    and "q = optdot (getProp (dataObject (getProp evt (jstr ''data''))) (jstr ''metadata'')) (jstr ''quantity'')"
  shows "quantity r \<noteq> NaN \<and> quantity r \<noteq> Fin 0
       \<and> (\<not> truthy q \<longrightarrow> quantity r = Fin 1)
       \<and> (\<forall>s. truthy q \<longrightarrow> toString_js q = Inr s \<longrightarrow> parseInt10 s = NaN \<longrightarrow> quantity r = Fin 1)
       \<and> (\<forall>s n. truthy q \<longrightarrow> toString_js q = Inr s \<longrightarrow> parseInt10 s = Fin n \<longrightarrow> exactInt n \<longrightarrow>
             quantity r = (if n = 0 then Fin 1 else Fin n))
       \<and> (\<forall>n. q = JNum (Fin n) \<longrightarrow> exactInt n \<longrightarrow> quantity r = (if n = 0 then Fin 1 else Fin n))
       \<and> (\<forall>s. q = JStr s \<longrightarrow> parseInt10 s = NaN \<longrightarrow> quantity r = Fin 1)
       \<and> (\<forall>s n. q = JStr s \<longrightarrow> parseInt10 s = Fin n \<longrightarrow> exactInt n \<longrightarrow>
             quantity r = (if n = 0 then Fin 1 else Fin n))"
proof -
  note qo = normalize_Inr(3) [OF assms(1)]
  note cases = quantityOf_cases [OF qo assms(2)]
  have empty: "parseInt10 [] = NaN" by (simp add: parseInt10_def trimStart_def)
  have nan: "quantity r = Fin 1"
    if "truthy q" and "toString_js q = Inr s" and "parseInt10 s = NaN" for s
    using cases(3) [OF that(1,2)] that(3) by simp
  have fin: "quantity r = (if n = 0 then Fin 1 else Fin n)"
    if "truthy q" and "toString_js q = Inr s" and "parseInt10 s = Fin n" for s n
    using cases(3) [OF that(1,2)] that(3) by simp
  have num: "quantity r = (if n = 0 then Fin 1 else Fin n)" if "q = JNum (Fin n)" for n
  proof (cases "n = 0")
    case True
    with that cases(2) show ?thesis by simp
  next
    case False
    with that fin [of "numToString (Fin n)" n] show ?thesis
      by (simp add: parseInt10_numToString)
  qed
  have str_nan: "quantity r = Fin 1" if "q = JStr s" and "parseInt10 s = NaN" for s
  proof (cases "s = []")
    case True
    with that(1) cases(2) show ?thesis by simp
  next
    case False
    with that nan [of s] show ?thesis by simp
  qed
  have str_fin: "quantity r = (if n = 0 then Fin 1 else Fin n)"
    if "q = JStr s" and "parseInt10 s = Fin n" for s n
  proof (cases "s = []")
    case True
    with that(2) empty show ?thesis by simp
  next
    case False
    with that fin [of s n] show ?thesis by simp
  qed
  from cases(1) cases(2) nan fin num str_nan str_fin show ?thesis by blast
qed

theorem normalize_quantity_witness:
  "normalizeStripeEvent 0 sample_event_negative_quantity =
     Inr (projr (normalizeStripeEvent 0 sample_event_negative_quantity)) \<and>
   optdot (getProp (dataObject (getProp sample_event_negative_quantity (jstr ''data''))) (jstr ''metadata''))
     (jstr ''quantity'') = JStr (jstr ''-3'') \<and>
   parseInt10 (jstr ''-3'') = Fin (- 3) \<and>
   exactInt (- 3) \<and>
   quantity (projr (normalizeStripeEvent 0 sample_event_negative_quantity)) = Fin (- 3) \<and>
   normalizeStripeEvent 0 sample_event_intent = Inr (projr (normalizeStripeEvent 0 sample_event_intent)) \<and>
   \<not> truthy (optdot (getProp (dataObject (getProp sample_event_intent (jstr ''data''))) (jstr ''metadata''))
              (jstr ''quantity'')) \<and>
   quantity (projr (normalizeStripeEvent 0 sample_event_intent)) = Fin 1"
proof -
  have h1: "normalizeStripeEvent 0 sample_event_negative_quantity =
     Inr (projr (normalizeStripeEvent 0 sample_event_negative_quantity))"
    by (simp add: normalize_sample_negative_quantity)
  have h2: "optdot (getProp (dataObject (getProp sample_event_negative_quantity (jstr ''data''))) (jstr ''metadata''))
     (jstr ''quantity'') = JStr (jstr ''-3'')"
    by (simp add: sample_event_negative_quantity_def js_eval)
  have h3: "parseInt10 (jstr ''-3'') = Fin (- 3)" by (simp add: js_eval)
  have ex: "exactInt (- 3)" by (simp add: exactInt_def)
  have h4: "normalizeStripeEvent 0 sample_event_intent = Inr (projr (normalizeStripeEvent 0 sample_event_intent))"
    by (simp add: normalize_sample_intent)
  have h5: "\<not> truthy (optdot (getProp (dataObject (getProp sample_event_intent (jstr ''data''))) (jstr ''metadata''))
              (jstr ''quantity''))"
    by (simp add: sample_event_intent_def js_eval)
  have "quantity (projr (normalizeStripeEvent 0 sample_event_negative_quantity)) =
          (if (- 3 :: int) = 0 then Fin 1 else Fin (- 3))"
    using normalize_quantity [OF h1 h2 [symmetric]] h3 ex by blast
  then have a: "quantity (projr (normalizeStripeEvent 0 sample_event_negative_quantity)) = Fin (- 3)"
    by simp
  have b: "quantity (projr (normalizeStripeEvent 0 sample_event_intent)) = Fin 1"
    using normalize_quantity [OF h4 refl] h5 by blast
  from h1 h2 h3 ex h4 h5 a b show ?thesis by blast
qed

section \<open>Properties of the DingTalk signature\<close>

lemma fromCharCode_loop_eq:
  "fromCharCode_loop bytes i b64 = b64 @ map ucast (drop i bytes)"
proof (induction bytes i b64 rule: fromCharCode_loop.induct)
  case (1 bytes i b64)
  show ?case
  proof (cases "i < length bytes")
    case True
    have "drop i bytes = take 0x8000 (drop i bytes) @ drop (i + 0x8000) bytes"
      by (metis add.commute append_take_drop_id drop_drop)
    then have "map ucast (drop i bytes) =
               (map ucast (take 0x8000 (drop i bytes)) :: jsstring) @ map ucast (drop (i + 0x8000) bytes)"
      by (metis map_append)
    with True "1.IH" show ?thesis
      by (subst fromCharCode_loop.simps) simp
  next
    case False
    then show ?thesis by (subst fromCharCode_loop.simps) simp
  qed
qed

lemma unat_ucast_byte: "unat (ucast (b :: byte) :: code_unit) = unat b"
proof -
  have "unat b < 2 ^ 16"
    using unsigned_less [of b, where ?'a = nat] by simp
  then show ?thesis
    by (simp add: unsigned_ucast_eq take_bit_nat_eq_self)
qed

lemma ucast_byte_le: "(ucast (b :: byte) :: code_unit) \<le> 0xFF"
proof -
  have "unat b < 256" using unsigned_less [of b, where ?'a = nat] by simp
  then show ?thesis by (simp add: word_le_nat_alt unat_ucast_byte)
qed

lemma btoa_bytes: "btoa (map ucast (bytes :: byte list)) = Inr (b64_groups (map unat bytes))"
proof -
  have le: "\<not> 0xFF < (ucast b :: code_unit)" for b :: byte
    using ucast_byte_le [of b] by (simp add: not_less)
  have "\<not> list_ex (\<lambda>c. 0xFF < c) (map ucast bytes :: jsstring)"
    by (induction bytes) (simp_all add: le)
  then show ?thesis
    by (simp add: btoa_def comp_def unat_ucast_byte)
qed

lemma b64char_base64: "isBase64Char (b64char n)"
proof -
  have u: "unat (of_nat k :: code_unit) = k" if "k < 200" for k
    using that by (simp only: unat_of_nat) simp
  show ?thesis
    unfolding b64char_def isBase64Char_def
    by (auto simp: word_le_nat_alt u simp del: of_nat_add of_nat_numeral of_nat_diff)
qed

lemma b64_groups_base64: "list_all isBase64Char (b64_groups ns)"
proof (induction ns rule: b64_groups.induct)
  case 1
  then show ?case by simp
next
  case (2 a)
  then show ?case by (simp add: b64char_base64) (simp add: isBase64Char_def)
next
  case (3 a b)
  then show ?case by (simp add: b64char_base64) (simp add: isBase64Char_def)
next
  case (4 a b c r)
  then show ?case by (simp add: b64char_base64)
qed

lemma escape_plus: "pctEncode (utf8_of_code_point 43) = jstr ''%2B''"
  by (simp add: str_eval pctEncode_def utf8_of_code_point_def hexDigitUpper_def)

lemma escape_slash: "pctEncode (utf8_of_code_point 47) = jstr ''%2F''"
  by (simp add: str_eval pctEncode_def utf8_of_code_point_def hexDigitUpper_def)

lemma escape_equals: "pctEncode (utf8_of_code_point 61) = jstr ''%3D''"
  by (simp add: str_eval pctEncode_def utf8_of_code_point_def hexDigitUpper_def)

lemma base64_char_cases:
  "isBase64Char c \<Longrightarrow> (uriUnreserved c \<and> c \<noteq> 0x2B \<and> c \<noteq> 0x2F \<and> c \<noteq> 0x3D) \<or>
     (\<not> uriUnreserved c \<and> \<not> isHighSurrogate c \<and> \<not> isLowSurrogate c \<and> (c = 0x2B \<or> c = 0x2F \<or> c = 0x3D))"
  unfolding isBase64Char_def uriUnreserved_def isHighSurrogate_def isLowSurrogate_def
  by (auto simp: word_le_nat_alt)

lemma escapeBase64Char_unreserved:
  "uriUnreserved c \<and> c \<noteq> 0x2B \<and> c \<noteq> 0x2F \<and> c \<noteq> 0x3D \<Longrightarrow> escapeBase64Char c = [c]"
  by (simp add: escapeBase64Char_def)

lemma escapeBase64Char_reserved:
  "c = 0x2B \<or> c = 0x2F \<or> c = 0x3D \<Longrightarrow> escapeBase64Char c = pctEncode (utf8_of_code_point (unat c))"
  by (auto simp: escapeBase64Char_def escape_plus escape_slash escape_equals)

lemma encodeURIComponent_base64:
  "list_all isBase64Char s \<Longrightarrow> encodeURIComponent s = Inr (concat (map escapeBase64Char s))"
proof (induction s rule: encodeURIComponent.induct)
  case 1
  then show ?case by simp
next
  case (2 c)
  then have "isBase64Char c" by simp
  from base64_char_cases [OF this] show ?case
  proof
    assume u: "uriUnreserved c \<and> c \<noteq> 0x2B \<and> c \<noteq> 0x2F \<and> c \<noteq> 0x3D"
    then show ?thesis by (simp add: escapeBase64Char_unreserved)
  next
    assume n: "\<not> uriUnreserved c \<and> \<not> isHighSurrogate c \<and> \<not> isLowSurrogate c \<and> (c = 0x2B \<or> c = 0x2F \<or> c = 0x3D)"
    then have "escapeBase64Char c = pctEncode (utf8_of_code_point (unat c))"
      by (simp add: escapeBase64Char_reserved)
    with n show ?thesis by simp
  qed
next
  case (3 c d r)
  then have c: "isBase64Char c" and rest: "list_all isBase64Char (d # r)" by simp_all
  from base64_char_cases [OF c] show ?case
  proof
    assume u: "uriUnreserved c \<and> c \<noteq> 0x2B \<and> c \<noteq> 0x2F \<and> c \<noteq> 0x3D"
    then have "encodeURIComponent (d # r) = Inr (concat (map escapeBase64Char (d # r)))"
      using "3.IH"(1) rest by blast
    with u show ?thesis
      by (simp add: escapeBase64Char_unreserved)
  next
    assume n: "\<not> uriUnreserved c \<and> \<not> isHighSurrogate c \<and> \<not> isLowSurrogate c \<and> (c = 0x2B \<or> c = 0x2F \<or> c = 0x3D)"
    then have ih: "encodeURIComponent (d # r) = Inr (concat (map escapeBase64Char (d # r)))"
      using "3.IH"(3) rest by blast
    from n have "escapeBase64Char c = pctEncode (utf8_of_code_point (unat c))"
      by (simp add: escapeBase64Char_reserved)
    with n ih show ?thesis by simp
  qed
qed

lemma signDingtalk_eq:
  "signDingtalk hmac now_ms secret =
     Inr (b64_groups (map unat (hmac (TextEncoder_encode secret)
            (TextEncoder_encode (numToString (Fin now_ms) @ [0x0A] @ secret)))))"
  by (simp add: signDingtalk_def Let_def fromCharCode_loop_eq btoa_bytes)

lemma sendDingtalk_webhook_signed:
  assumes "DINGTALK_SECRET e = Some secret" and "secret \<noteq> []"
  shows "sendDingtalk_webhook hmac now_ms e info =
     Inr (Some (template (DINGTALK_WEBHOOK e) @ jstr ''&timestamp='' @ numToString (Fin now_ms)
                @ jstr ''&sign=''
                @ concat (map escapeBase64Char (b64_groups (map unat
                    (hmac (TextEncoder_encode secret)
                       (TextEncoder_encode (numToString (Fin now_ms) @ [0x0A] @ secret))))))))"
proof -
  have enc: "encodeURIComponent (b64_groups ns) = Inr (concat (map escapeBase64Char (b64_groups ns)))" for ns
    by (rule encodeURIComponent_base64) (rule b64_groups_base64)
  show ?thesis
    using assms
    by (simp add: sendDingtalk_webhook_def Let_def truthyStr_def signDingtalk_eq enc)
qed

text \<open>
  C9. With a webhook address and a non-empty signing secret configured, each call of the
  DingTalk notifier computes the MAC, keyed by the secret, of the decimal timestamp, a line
  feed and the secret; the signature is its Base64 form, which \<^verbatim>\<open>encodeURIComponent\<close>
  never rejects and changes only at \<^verbatim>\<open>+\<close>, \<^verbatim>\<open>/\<close> and \<^verbatim>\<open>=\<close>; the address posted to
  is the webhook followed by \<^verbatim>\<open>&timestamp=\<close>, the timestamp, \<^verbatim>\<open>&sign=\<close> and the escaped
  signature. The timestamp is the clock reading of the call: the address is the same for
  every payment record, and a task of the coordinator uses the reading taken in that task.
\<close>

theorem sendDingtalk_signature:
  assumes "DINGTALK_WEBHOOK e = Some webhook"
    and "DINGTALK_SECRET e = Some secret"
    and "secret \<noteq> []"
    and "mac = hmac (TextEncoder_encode secret)
                 (TextEncoder_encode (numToString (Fin now_ms) @ [0x0A] @ secret))"
    and "url = webhook @ jstr ''&timestamp='' @ numToString (Fin now_ms) @ jstr ''&sign=''
               @ concat (map escapeBase64Char (b64_groups (map unat mac)))"
  shows "signDingtalk hmac now_ms secret = Inr (b64_groups (map unat mac))
       \<and> encodeURIComponent (b64_groups (map unat mac))
           = Inr (concat (map escapeBase64Char (b64_groups (map unat mac))))
       \<and> sendDingtalk_webhook hmac now_ms e info = Inr (Some url)
       \<and> sendDingtalk_webhook hmac now_ms e info' = sendDingtalk_webhook hmac now_ms e info
       \<and> (crypto_hmac P = hmac \<longrightarrow> now_dingtalk P = now_ms \<longrightarrow>
            run_task P e info Dingtalk = deliver P Dingtalk (Some url) info)"
proof -
  have sign: "signDingtalk hmac now_ms secret = Inr (b64_groups (map unat mac))"
    unfolding assms(4) by (rule signDingtalk_eq)
  have enc: "encodeURIComponent (b64_groups (map unat mac))
           = Inr (concat (map escapeBase64Char (b64_groups (map unat mac))))"
    by (rule encodeURIComponent_base64) (rule b64_groups_base64)
  have send: "sendDingtalk_webhook hmac now_ms e i = Inr (Some url)" for i
    using sendDingtalk_webhook_signed [OF assms(2,3), of hmac now_ms i]
    by (simp add: assms(1,4,5) template_def)
  have task: "crypto_hmac P = hmac \<longrightarrow> now_dingtalk P = now_ms \<longrightarrow>
            run_task P e info Dingtalk = deliver P Dingtalk (Some url) info"
    by (simp add: run_task_def send)
  from sign enc send [of info] send [of info'] task show ?thesis by simp
qed

theorem sendDingtalk_signature_witness:
  "DINGTALK_WEBHOOK sample_env = Some (jstr ''https://oapi.dingtalk.com/robot/send?access_token=T'') \<and>
   DINGTALK_SECRET sample_env = Some (jstr ''SEC1'') \<and>
   jstr ''SEC1'' \<noteq> [] \<and>
   sendDingtalk_webhook sample_hmac 1700000000123 sample_env sample_record =
     Inr (Some (jstr ''https://oapi.dingtalk.com/robot/send?access_token=T&timestamp=1700000000123&sign=BBK%2B7w%3D%3D''))"
proof -
  have h1: "DINGTALK_WEBHOOK sample_env = Some (jstr ''https://oapi.dingtalk.com/robot/send?access_token=T'')"
    by (simp add: sample_env_def)
  have h2: "DINGTALK_SECRET sample_env = Some (jstr ''SEC1'')"
    by (simp add: sample_env_def)
  have h3: "jstr ''SEC1'' \<noteq> []" by (simp add: jstr_def)
  have url: "jstr ''https://oapi.dingtalk.com/robot/send?access_token=T'' @ jstr ''&timestamp=''
               @ numToString (Fin 1700000000123) @ jstr ''&sign=''
               @ concat (map escapeBase64Char (b64_groups (map unat
                   (sample_hmac (TextEncoder_encode (jstr ''SEC1''))
                      (TextEncoder_encode (numToString (Fin 1700000000123) @ [0x0A] @ jstr ''SEC1''))))))
             = jstr ''https://oapi.dingtalk.com/robot/send?access_token=T&timestamp=1700000000123&sign=BBK%2B7w%3D%3D''"
    by (simp add: str_eval mac_eval escapeBase64Char_def b64char_def)
  from sendDingtalk_signature [OF h1 h2 h3 refl refl, of sample_hmac 1700000000123 sample_record]
  have "sendDingtalk_webhook sample_hmac 1700000000123 sample_env sample_record =
     Inr (Some (jstr ''https://oapi.dingtalk.com/robot/send?access_token=T'' @ jstr ''&timestamp=''
               @ numToString (Fin 1700000000123) @ jstr ''&sign=''
               @ concat (map escapeBase64Char (b64_groups (map unat
                   (sample_hmac (TextEncoder_encode (jstr ''SEC1''))
                      (TextEncoder_encode (numToString (Fin 1700000000123) @ [0x0A] @ jstr ''SEC1''))))))))"
    by blast
  with h1 h2 h3 show ?thesis by (simp only: url) simp
qed

section \<open>Properties of the request handler\<close>

lemmas handler_eval =
  verify_request_def orEmpty_def truthyStr_def falsyStr_def greaterThan_def tolerance_of_env_def
  verifyStripeSignature_def parseSignatureHeader_def hmacSHA256Hex_def constantTimeEqual_iff
  sample_env_def sample_platform_def webhook_request_def

lemma verify_request_intent: "verify_request sample_platform sample_env request_intent = Inr ()"
  by (simp add: request_intent_def body_intent_def handler_eval str_eval mac_eval)

lemma verify_request_customer: "verify_request sample_platform sample_env request_customer = Inr ()"
  by (simp add: request_customer_def body_customer_def handler_eval str_eval mac_eval)

lemma verify_request_null: "verify_request sample_platform sample_env request_null = Inr ()"
  by (simp add: request_null_def body_null_def handler_eval str_eval mac_eval)

lemma verify_request_not_json: "verify_request sample_platform sample_env request_not_json = Inr ()"
  by (simp add: request_not_json_def body_not_json_def handler_eval str_eval mac_eval)

lemma sample_bodies_distinct:
  "body_customer \<noteq> body_intent" "body_null \<noteq> body_intent" "body_null \<noteq> body_customer"
  "body_not_json \<noteq> body_intent" "body_not_json \<noteq> body_customer" "body_not_json \<noteq> body_null"
  by (simp_all add: body_intent_def body_customer_def body_null_def body_not_json_def jstr_def)

lemma sample_parse:
  "JSON_parse sample_platform (rawBody request_intent) = Some sample_event_intent"
  "JSON_parse sample_platform (rawBody request_customer) = Some (JObj [(jstr ''type'', JStr (jstr ''customer.created''))])"
  "JSON_parse sample_platform (rawBody request_null) = Some JNull"
  "JSON_parse sample_platform (rawBody request_not_json) = None"
  by (simp_all add: sample_platform_def sample_JSON_parse_def sample_bodies_distinct
        request_intent_def request_customer_def request_null_def request_not_json_def webhook_request_def)

lemma sample_requests_post:
  "method_name request_intent = jstr ''POST''" "pathname request_intent = jstr ''/stripe-webhook''"
  "method_name request_customer = jstr ''POST''" "pathname request_customer = jstr ''/stripe-webhook''"
  "method_name request_null = jstr ''POST''" "pathname request_null = jstr ''/stripe-webhook''"
  "method_name request_not_json = jstr ''POST''" "pathname request_not_json = jstr ''/stripe-webhook''"
  by (simp_all add: webhook_request_def request_intent_def request_customer_def request_null_def
        request_not_json_def)

lemma fetch_post:
  "method_name req = jstr ''POST'' \<Longrightarrow> pathname req = jstr ''/stripe-webhook'' \<Longrightarrow>
     fetch P e req = stripe_webhook P e req"
  by (simp add: fetch_def jstr_def)

lemma stripe_webhook_status:
  "status (reply (stripe_webhook P e req)) = 200 \<or> status (reply (stripe_webhook P e req)) = 400"
  by (simp add: stripe_webhook_def caught_def Let_def split: sum.splits option.splits)

lemma stripe_webhook_400_iff:
  "status (reply (stripe_webhook P e req)) = 400 \<longleftrightarrow>
     verify_request P e req \<noteq> Inr ()
     \<or> (case JSON_parse P (rawBody req) of
           None \<Rightarrow> True
         | Some evt \<Rightarrow>
             nullish evt \<or>
             (getProp evt (jstr ''type'') \<in> set okTypes \<and>
              (\<exists>err. normalizeStripeEvent (now_normalize P) evt = Inl err)))"
  by (auto simp: stripe_webhook_def caught_def Let_def dot_def split: sum.splits option.splits)

lemma verify_request_deliver: "verify_request (P\<lparr>deliver := d\<rparr>) e req = verify_request P e req"
  by (simp add: verify_request_def)

lemma stripe_webhook_reply_deliver:
  "reply (stripe_webhook (P\<lparr>deliver := d\<rparr>) e req) = reply (stripe_webhook P e req)"
  by (simp add: stripe_webhook_def verify_request_deliver caught_def split: sum.splits option.splits)

text \<open>
  C2, as the claim states it, fails: a request whose signature verifies is answered
  with status 400 when its body is not JSON, and also when its body is the JSON value
  null.
\<close>

theorem webhook_400_counterexample:
  "verify_request sample_platform sample_env request_not_json = Inr () \<and>
   status (reply (fetch sample_platform sample_env request_not_json)) = 400 \<and>
   verify_request sample_platform sample_env request_null = Inr () \<and>
   status (reply (fetch sample_platform sample_env request_null)) = 400"
  by (simp add: verify_request_not_json verify_request_null fetch_post sample_requests_post
        stripe_webhook_def sample_parse caught_def dot_def nullish_def)
text \<open>
  C2, amended. A \<^verbatim>\<open>POST\<close> to \<^verbatim>\<open>/stripe-webhook\<close> is answered with status 200 or 400.
  The status is 400 exactly when the signature verification throws or the handling of the
  verified body throws: the body is not JSON, it is JSON null, or its type is accepted
  and normalisation raises. The outcomes of the notifiers never change the response.
\<close>

theorem webhook_responses:
  assumes "method_name req = jstr ''POST''" and "pathname req = jstr ''/stripe-webhook''"
  shows "(status (reply (fetch P e req)) = 200 \<or> status (reply (fetch P e req)) = 400)
       \<and> (status (reply (fetch P e req)) = 400 \<longleftrightarrow>
            verify_request P e req \<noteq> Inr ()
            \<or> (case JSON_parse P (rawBody req) of
                  None \<Rightarrow> True
                | Some evt \<Rightarrow>
                    nullish evt \<or>
                    (getProp evt (jstr ''type'') \<in> set okTypes \<and>
                     (\<exists>err. normalizeStripeEvent (now_normalize P) evt = Inl err))))
       \<and> reply (fetch (P\<lparr>deliver := d\<rparr>) e req) = reply (fetch P e req)"
  unfolding fetch_post [OF assms]
  using stripe_webhook_status [of P e req] stripe_webhook_400_iff [of P e req]
        stripe_webhook_reply_deliver [of d P e req]
  by blast

theorem webhook_responses_witness:
  "method_name request_not_json = jstr ''POST'' \<and>
   pathname request_not_json = jstr ''/stripe-webhook'' \<and>
   JSON_parse sample_platform (rawBody request_not_json) = None \<and>
   status (reply (fetch sample_platform sample_env request_not_json)) = 400 \<and>
   method_name request_intent = jstr ''POST'' \<and>
   pathname request_intent = jstr ''/stripe-webhook'' \<and>
   status (reply (fetch sample_platform sample_env request_intent)) = 200"
proof -
  note bad = webhook_responses [OF sample_requests_post(7,8), of sample_platform sample_env]
  note good = webhook_responses [OF sample_requests_post(1,2), of sample_platform sample_env]
  have "status (reply (fetch sample_platform sample_env request_not_json)) = 400"
    using bad by (simp add: sample_parse)
  moreover have "\<not> (verify_request sample_platform sample_env request_intent \<noteq> Inr ()
            \<or> (case JSON_parse sample_platform (rawBody request_intent) of
                  None \<Rightarrow> True
                | Some evt \<Rightarrow>
                    nullish evt \<or>
                    (getProp evt (jstr ''type'') \<in> set okTypes \<and>
                     (\<exists>err. normalizeStripeEvent (now_normalize sample_platform) evt = Inl err))))"
    by (simp add: verify_request_intent sample_parse normalize_sample_intent)
       (simp add: sample_event_intent_def nullish_def)
  then have "status (reply (fetch sample_platform sample_env request_intent)) = 200"
    using good by blast
  ultimately show ?thesis
    using sample_requests_post sample_parse(4) by blast
qed

text \<open>
  C7. A request that passes verification and whose body parses to an event (a value
  other than null) with a type outside the accepted set is answered with status 200 and
  body \<^verbatim>\<open>ignored\<close>; normalisation is not called and no notifier is started.
\<close>

theorem ignored_event:
  assumes "method_name req = jstr ''POST''" and "pathname req = jstr ''/stripe-webhook''"
    and "verify_request P e req = Inr ()"
    and "JSON_parse P (rawBody req) = Some evt"
    and "\<not> nullish evt"
    and "getProp evt (jstr ''type'') \<notin> set okTypes"
  shows "fetch P e req =
           \<lparr> reply = \<lparr> status = 200, text_body = jstr ''ignored'' \<rparr>,
             normalize_called = False, tasks = [], logged = None \<rparr>"
  unfolding fetch_post [OF assms(1,2)]
  using assms(3-6) by (simp add: stripe_webhook_def dot_def)

theorem ignored_event_witness:
  "method_name request_customer = jstr ''POST'' \<and>
   pathname request_customer = jstr ''/stripe-webhook'' \<and>
   verify_request sample_platform sample_env request_customer = Inr () \<and>
   JSON_parse sample_platform (rawBody request_customer)
     = Some (JObj [(jstr ''type'', JStr (jstr ''customer.created''))]) \<and>
   \<not> nullish (JObj [(jstr ''type'', JStr (jstr ''customer.created''))]) \<and>
   getProp (JObj [(jstr ''type'', JStr (jstr ''customer.created''))]) (jstr ''type'') \<notin> set okTypes \<and>
   fetch sample_platform sample_env request_customer =
     \<lparr> reply = \<lparr> status = 200, text_body = jstr ''ignored'' \<rparr>,
       normalize_called = False, tasks = [], logged = None \<rparr>"
proof -
  have n: "\<not> nullish (JObj [(jstr ''type'', JStr (jstr ''customer.created''))])"
    by (simp add: nullish_def)
  have t: "getProp (JObj [(jstr ''type'', JStr (jstr ''customer.created''))]) (jstr ''type'') \<notin> set okTypes"
    by (simp add: okTypes_def jstr_def)
  from ignored_event [OF sample_requests_post(3,4) verify_request_customer sample_parse(2) n t]
    sample_requests_post(3,4) verify_request_customer sample_parse(2) n t
  show ?thesis by blast
qed






end
